theory Spec2Isabelle
  imports Complex_Main
begin

section \<open>Dispatch and pricing engine of the ride-hailing service\<close>

text \<open>
  The development embeds two Go packages: \<^verbatim>\<open>internal/service/pricing\<close> (fare and surge
  computation) and \<^verbatim>\<open>internal/service/matching\<close> (progressive radius search with the
  atomic claim on the Redis set \<^verbatim>\<open>drivers:available\<close>), together with the handler
  \<^verbatim>\<open>CreateRide\<close> that calls the matching service.

  Conventions of the embedding.
  \<^item> Go's \<^verbatim>\<open>float64\<close> is read as \<^typ>\<open>real\<close> wherever the value is a configured
    number, a request field or the result of arithmetic on such: rounding is not part of
    the model. The concrete values evaluated below are exactly representable in binary
    floating point, except the multiplier 2.4 in C9, which the code computes up to rounding
    and which is set against 2.0. A number that is parsed from a text in the store can
    also be an infinity or NaN; such a value has the type \<open>float64\<close> below.
  \<^item> Go's \<^verbatim>\<open>int\<close> is read as \<^typ>\<open>int\<close>; the functions embedded here only convert such
    values to \<^verbatim>\<open>float64\<close> and never do integer arithmetic on them.
  \<^item> Redis is an explicit state that every command takes and returns. Log output and
    wall-clock measurements do not influence any returned value and are left out.
\<close>

subsection \<open>Vehicle types (\<^verbatim>\<open>internal/domain/driver/driver.go\<close>)\<close>

type_synonym VehicleType = string

definition VehicleEconomy :: VehicleType where
  "VehicleEconomy = ''economy''"

definition VehiclePremium :: VehicleType where
  "VehiclePremium = ''premium''"

definition VehicleLuxury :: VehicleType where
  "VehicleLuxury = ''luxury''"

subsection \<open>The Redis state\<close>

text \<open>
  One entry of a GEORADIUS reply (\<^verbatim>\<open>redis.GeoLocation\<close>): member name, coordinates and
  distance from the query point.
\<close>

record GeoLocation =
  loc_Name :: string
  loc_Longitude :: real
  loc_Latitude :: real
  loc_Dist :: real

text \<open>The commands the embedded code sends, with their arguments, in the order sent.\<close>

datatype redis_cmd =
    GEORADIUS real real real int
  | GET string
  | SREM string
  | SETEX string string nat

datatype redis_error = RedisNil | RedisUnavailable | NotAFloat

text \<open>
  \<^item> \<open>geo_index lng lat radius count\<close> is the server's reply to
    \<^verbatim>\<open>GEORADIUS drivers:locations lng lat radius km WITHCOORD WITHDIST COUNT count ASC\<close>;
  \<^item> \<open>available\<close> is the member set of \<^verbatim>\<open>drivers:available\<close>;
  \<^item> \<open>strings\<close> holds the string keys with their time to live in seconds
    (\<open>0\<close>: no expiry, as in go-redis); the passing of time is not modelled, so an entry
    stays until it is overwritten;
  \<^item> \<open>outages\<close> says for each command still to come whether it fails (store unreachable,
    timeout); a failing command has no effect on the data; the empty list means that no
    further command fails;
  \<^item> \<open>calls\<close> is the log of the commands sent so far.
\<close>

record Redis =
  geo_index :: "real \<Rightarrow> real \<Rightarrow> real \<Rightarrow> int \<Rightarrow> GeoLocation list"
  available :: "string set"
  strings :: "string \<rightharpoonup> (string \<times> nat)"
  outages :: "bool list"
  calls :: "redis_cmd list"

definition issue :: "redis_cmd \<Rightarrow> Redis \<Rightarrow> bool \<times> Redis" where
  "issue c st =
     (case outages st of
        [] \<Rightarrow> (False, st\<lparr>calls := calls st @ [c]\<rparr>)
      | down # later \<Rightarrow> (down, st\<lparr>outages := later, calls := calls st @ [c]\<rparr>))"

definition redis_Get :: "string \<Rightarrow> Redis \<Rightarrow> (redis_error + string) \<times> Redis" where
  "redis_Get key st =
     (let (down, st1) = issue (GET key) st
      in if down then (Inl RedisUnavailable, st1)
         else (case strings st1 key of
                 None \<Rightarrow> (Inl RedisNil, st1)
               | Some (v, ttl) \<Rightarrow> (Inr v, st1)))"

definition redis_SRem :: "string \<Rightarrow> Redis \<Rightarrow> (redis_error + int) \<times> Redis" where
  "redis_SRem member st =
     (let (down, st1) = issue (SREM member) st
      in if down then (Inl RedisUnavailable, st1)
         else if member \<in> available st1
              then (Inr 1, st1\<lparr>available := available st1 - {member}\<rparr>)
              else (Inr 0, st1))"

definition redis_Set :: "string \<Rightarrow> string \<Rightarrow> nat \<Rightarrow> Redis \<Rightarrow> (redis_error + unit) \<times> Redis" where
  "redis_Set key v ttl st =
     (let (down, st1) = issue (SETEX key v ttl) st
      in if down then (Inl RedisUnavailable, st1)
         else (Inr (), st1\<lparr>strings := (strings st1)(key \<mapsto> (v, ttl))\<rparr>))"

definition redis_GeoRadius ::
  "real \<Rightarrow> real \<Rightarrow> real \<Rightarrow> int \<Rightarrow> Redis \<Rightarrow> (redis_error + GeoLocation list) \<times> Redis" where
  "redis_GeoRadius lng lat radius count st =
     (let (down, st1) = issue (GEORADIUS lng lat radius count) st
      in if down then (Inl RedisUnavailable, st1)
         else (Inr (geo_index st1 lng lat radius count), st1))"

text \<open>
  A \<^verbatim>\<open>float64\<close> as \<^verbatim>\<open>strconv.ParseFloat\<close> can return it: a number, an infinity
  (texts such as \<^verbatim>\<open>Inf\<close>) or NaN (text \<^verbatim>\<open>NaN\<close>). The comparisons with a number and the
  product with a number follow IEEE 754: every comparison with NaN is false, and NaN
  times anything is NaN.
\<close>

datatype float64 = Finite real | PosInf | NegInf | NaN

fun float64_gt :: "float64 \<Rightarrow> real \<Rightarrow> bool" where
  "float64_gt (Finite x) y = (x > y)"
| "float64_gt PosInf y = True"
| "float64_gt NegInf y = False"
| "float64_gt NaN y = False"

fun float64_lt :: "float64 \<Rightarrow> real \<Rightarrow> bool" where
  "float64_lt (Finite x) y = (x < y)"
| "float64_lt PosInf y = False"
| "float64_lt NegInf y = True"
| "float64_lt NaN y = False"

fun float64_times :: "real \<Rightarrow> float64 \<Rightarrow> float64" where
  "float64_times x (Finite y) = Finite (x * y)"
| "float64_times x PosInf = (if x > 0 then PosInf else if x < 0 then NegInf else NaN)"
| "float64_times x NegInf = (if x > 0 then NegInf else if x < 0 then PosInf else NaN)"
| "float64_times x NaN = NaN"

text \<open>
  \<^verbatim>\<open>Get(ctx, key).Float64()\<close>: the read, then \<^verbatim>\<open>strconv.ParseFloat\<close> on the value. The
  parser belongs to the Go standard library and is a parameter (\<open>None\<close>: the text is not
  a number).
\<close>

definition redis_GetFloat64 ::
  "(string \<Rightarrow> float64 option) \<Rightarrow> string \<Rightarrow> Redis \<Rightarrow> (redis_error + float64) \<times> Redis" where
  "redis_GetFloat64 ParseFloat key st =
     (let (r, st1) = redis_Get key st
      in case r of
           Inl e \<Rightarrow> (Inl e, st1)
         | Inr v \<Rightarrow> (case ParseFloat v of
                      None \<Rightarrow> (Inl NotAFloat, st1)
                    | Some x \<Rightarrow> (Inr x, st1)))"

subsection \<open>Pricing (\<^verbatim>\<open>internal/service/pricing/calculator.go\<close>)\<close>

record pricing_Config =
  BaseFare :: "VehicleType \<rightharpoonup> real"
  PerKMRate :: "VehicleType \<rightharpoonup> real"
  PerMinuteRate :: "VehicleType \<rightharpoonup> real"
  MaxSurgeMultiplier :: real
  MinSurgeMultiplier :: real

record FareBreakdown =
  fb_BaseFare :: real
  fb_DistanceFare :: real
  fb_TimeFare :: real
  fb_SurgeMultiplier :: float64
  fb_Subtotal :: real
  fb_Total :: float64

text \<open>Indexing a Go map: a missing key yields the zero value.\<close>

definition map_index :: "('k \<rightharpoonup> real) \<Rightarrow> 'k \<Rightarrow> real" where
  "map_index m k = (case m k of None \<Rightarrow> 0 | Some v \<Rightarrow> v)"

definition EstimateFare :: "pricing_Config \<Rightarrow> VehicleType \<Rightarrow> real \<Rightarrow> int \<Rightarrow> real" where
  "EstimateFare cfg vehicleType distanceKM estimatedMinutes =
     (let baseFare = map_index (BaseFare cfg) vehicleType;
          perKM = map_index (PerKMRate cfg) vehicleType;
          perMinute = map_index (PerMinuteRate cfg) vehicleType
      in baseFare + (distanceKM * perKM) + (real_of_int estimatedMinutes * perMinute))"

definition GetSurgeMultiplier ::
  "(string \<Rightarrow> float64 option) \<Rightarrow> pricing_Config \<Rightarrow> string \<Rightarrow> Redis
     \<Rightarrow> float64 \<times> Redis" where
  "GetSurgeMultiplier ParseFloat cfg region st =
     (let key = ''surge:'' @ region;
          (r, st1) = redis_GetFloat64 ParseFloat key st
      in case r of
           Inl e \<Rightarrow> (Finite 1.0, st1)
         | Inr val \<Rightarrow>
             if float64_gt val (MaxSurgeMultiplier cfg)
             then (Finite (MaxSurgeMultiplier cfg), st1)
             else if float64_lt val (MinSurgeMultiplier cfg)
             then (Finite (MinSurgeMultiplier cfg), st1)
             else (val, st1))"

definition CalculateFare ::
  "(string \<Rightarrow> float64 option) \<Rightarrow> pricing_Config \<Rightarrow> VehicleType \<Rightarrow> real \<Rightarrow> int \<Rightarrow> string \<Rightarrow> Redis
     \<Rightarrow> FareBreakdown \<times> Redis" where
  "CalculateFare ParseFloat cfg vehicleType distanceKM durationMinutes region st =
     (let baseFare = map_index (BaseFare cfg) vehicleType;
          perKM = map_index (PerKMRate cfg) vehicleType;
          perMinute = map_index (PerMinuteRate cfg) vehicleType;
          distanceFare = distanceKM * perKM;
          timeFare = real_of_int durationMinutes * perMinute;
          subtotal = baseFare + distanceFare + timeFare;
          (surgeMultiplier, st1) = GetSurgeMultiplier ParseFloat cfg region st;
          total = float64_times subtotal surgeMultiplier
      in (\<lparr>fb_BaseFare = baseFare, fb_DistanceFare = distanceFare, fb_TimeFare = timeFare,
           fb_SurgeMultiplier = surgeMultiplier, fb_Subtotal = subtotal, fb_Total = total\<rparr>,
          st1))"

definition CalculateSurgeBasedOnDemand :: "pricing_Config \<Rightarrow> int \<Rightarrow> int \<Rightarrow> real" where
  "CalculateSurgeBasedOnDemand cfg activeRides availableDrivers =
     (if availableDrivers = 0 then MaxSurgeMultiplier cfg
      else
        let ratio = real_of_int activeRides / real_of_int availableDrivers
        in if ratio < 0.5 then 1.0
           else if ratio < 1.0 then 1.0 + (ratio * 0.5)
           else if ratio < 2.0 then 1.5 + ((ratio - 1.0) * 1.0)
           else
             let multiplier = 2.5 + ((ratio - 2.0) * 0.25)
             in if multiplier > MaxSurgeMultiplier cfg then MaxSurgeMultiplier cfg
                else multiplier)"

text \<open>The configuration of the package's unit tests (\<^verbatim>\<open>getTestConfig\<close>).\<close>

definition getTestConfig :: pricing_Config where
  "getTestConfig =
     \<lparr>BaseFare = [VehicleEconomy \<mapsto> 50.0, VehiclePremium \<mapsto> 100.0, VehicleLuxury \<mapsto> 200.0],
      PerKMRate = [VehicleEconomy \<mapsto> 10.0, VehiclePremium \<mapsto> 15.0, VehicleLuxury \<mapsto> 25.0],
      PerMinuteRate = [VehicleEconomy \<mapsto> 2.0, VehiclePremium \<mapsto> 3.0, VehicleLuxury \<mapsto> 5.0],
      MaxSurgeMultiplier = 3.0,
      MinSurgeMultiplier = 1.0\<rparr>"

text \<open>
  The reference curve, written from the specification's wording: the ratio is
  \<open>r = activeAssignments / availableWorkers\<close>, four pieces, the last one capped at
  \<open>maxSurge\<close>; no supply at all yields \<open>maxSurge\<close>.
\<close>

definition surge_curve_spec :: "real \<Rightarrow> real \<Rightarrow> real" where
  "surge_curve_spec maxSurge r =
     (if r < 0.5 then 1.0
      else if 0.5 \<le> r \<and> r < 1.0 then 1.0 + 0.5 * r
      else if 1.0 \<le> r \<and> r < 2.0 then 1.5 + 1.0 * (r - 1.0)
      else min (2.5 + 0.25 * (r - 2.0)) maxSurge)"

definition ComputeSurge_spec :: "real \<Rightarrow> int \<Rightarrow> int \<Rightarrow> real" where
  "ComputeSurge_spec maxSurge activeAssignments availableWorkers =
     (if availableWorkers = 0 then maxSurge
      else surge_curve_spec maxSurge
             (real_of_int activeAssignments / real_of_int availableWorkers))"

subsection \<open>Matching (\<^verbatim>\<open>internal/service/matching\<close>)\<close>

record matching_Config =
  MaxRadiusKM :: real
  MaxExpandedRadius :: real
  MaxTimeout :: int
  MaxCandidates :: int

text \<open>
  The functions of \<^verbatim>\<open>github.com/google/uuid\<close> that the service calls. The package is
  not part of the repository, so it is a parameter: \<open>uuid_Parse\<close> is \<^verbatim>\<open>uuid.Parse\<close>
  (\<open>None\<close>: the text is not a UUID), \<open>uuid_New\<close> is the value \<^verbatim>\<open>uuid.New()\<close> draws (a
  search calls it at most once), \<open>uuid_String\<close> is the method \<^verbatim>\<open>String\<close>.
\<close>

record 'u uuid_pkg =
  uuid_Parse :: "string \<Rightarrow> 'u option"
  uuid_New :: 'u
  uuid_String :: "'u \<Rightarrow> string"

text \<open>
  \<^verbatim>\<open>driver.Driver\<close>, with the fields the matching service sets; the other fields keep
  their zero values.
\<close>

record 'u Driver =
  ID :: 'u
  Name :: string
  Status :: string
  VehicleType :: VehicleType
  CurrentLatitude :: "real option"
  CurrentLongitude :: "real option"
  Rating :: real

definition StatusOnline :: string where
  "StatusOnline = ''online''"

text \<open>
  What a search hands back in place of a driver: the wrapped error of a failed geo query,
  \<^verbatim>\<open>driver.ErrDriverNotAvailable\<close>, or the run-time panic of the slice expression
  \<^verbatim>\<open>driverID[:8]\<close> on an identifier shorter than eight bytes.
\<close>

datatype failure = SearchFailed redis_error | ErrDriverNotAvailable | PanicSliceBounds

text \<open>The loop of \<^verbatim>\<open>searchDriversInRadius\<close> over the reply of the geo query.\<close>

fun searchDriversInRadius_loop ::
  "'u uuid_pkg \<Rightarrow> VehicleType \<Rightarrow> GeoLocation list \<Rightarrow> Redis \<Rightarrow> (failure + 'u Driver) \<times> Redis" where
  "searchDriversInRadius_loop lib vehicleType [] st = (Inl ErrDriverNotAvailable, st)"
| "searchDriversInRadius_loop lib vehicleType (result # results) st =
     (let driverID = loc_Name result;
          currentRideKey = ''driver:'' @ driverID @ '':current_ride'';
          (currentRide, st1) = redis_Get currentRideKey st
      in if (case currentRide of Inl e \<Rightarrow> False | Inr v \<Rightarrow> v \<noteq> [])
         then searchDriversInRadius_loop lib vehicleType results st1
         else
           let (removed, st2) = redis_SRem driverID st1
           in case removed of
                Inl e \<Rightarrow> searchDriversInRadius_loop lib vehicleType results st2
              | Inr n \<Rightarrow>
                  if n = 0 then searchDriversInRadius_loop lib vehicleType results st2
                  else
                    let (written, st3) = redis_Set currentRideKey ''claiming'' 30 st2;
                        lat = loc_Latitude result;
                        lng = loc_Longitude result;
                        driverUUID = (case uuid_Parse lib driverID of
                                        None \<Rightarrow> uuid_New lib
                                      | Some u \<Rightarrow> u)
                    in if length driverID < 8 then (Inl PanicSliceBounds, st3)
                       else (Inr \<lparr>ID = driverUUID,
                                  Name = ''Driver '' @ take 8 driverID,
                                  Status = StatusOnline,
                                  VehicleType = vehicleType,
                                  CurrentLatitude = Some lat,
                                  CurrentLongitude = Some lng,
                                  Rating = 4.8\<rparr>, st3))"

definition searchDriversInRadius ::
  "'u uuid_pkg \<Rightarrow> matching_Config \<Rightarrow> real \<Rightarrow> real \<Rightarrow> real \<Rightarrow> VehicleType \<Rightarrow> Redis
     \<Rightarrow> (failure + 'u Driver) \<times> Redis" where
  "searchDriversInRadius lib cfg pickupLat pickupLng radius vehicleType st =
     (let (results, st1) = redis_GeoRadius pickupLng pickupLat radius (MaxCandidates cfg) st
      in case results of
           Inl e \<Rightarrow> (Inl (SearchFailed e), st1)
         | Inr rs \<Rightarrow>
             if length rs = 0 then (Inl ErrDriverNotAvailable, st1)
             else searchDriversInRadius_loop lib vehicleType rs st1)"

text \<open>The radii that \<^verbatim>\<open>FindNearestDriver\<close> builds before it searches.\<close>

definition maxRadius :: "matching_Config \<Rightarrow> real" where
  "maxRadius cfg = (if MaxExpandedRadius cfg = 0 then 50.0 else MaxExpandedRadius cfg)"

definition searchRadii :: "matching_Config \<Rightarrow> real list" where
  "searchRadii cfg =
     (let expandedRadii = [MaxRadiusKM cfg * 2, MaxRadiusKM cfg * 4, MaxRadiusKM cfg * 10]
      in [MaxRadiusKM cfg] @ filter (\<lambda>r. r \<le> maxRadius cfg) expandedRadii)"

text \<open>
  The loop over the radii: a search that yields a driver ends it, a panic unwinds through
  it, any other outcome moves on to the next radius.
\<close>

fun FindNearestDriver_loop ::
  "'u uuid_pkg \<Rightarrow> matching_Config \<Rightarrow> real \<Rightarrow> real \<Rightarrow> VehicleType \<Rightarrow> real list \<Rightarrow> Redis
     \<Rightarrow> (failure + 'u Driver) \<times> Redis" where
  "FindNearestDriver_loop lib cfg pickupLat pickupLng vehicleType [] st =
     (Inl ErrDriverNotAvailable, st)"
| "FindNearestDriver_loop lib cfg pickupLat pickupLng vehicleType (radius # radii) st =
     (case searchDriversInRadius lib cfg pickupLat pickupLng radius vehicleType st of
        (Inr foundDriver, st1) \<Rightarrow> (Inr foundDriver, st1)
      | (Inl PanicSliceBounds, st1) \<Rightarrow> (Inl PanicSliceBounds, st1)
      | (Inl e, st1) \<Rightarrow>
          FindNearestDriver_loop lib cfg pickupLat pickupLng vehicleType radii st1)"

definition FindNearestDriver ::
  "'u uuid_pkg \<Rightarrow> matching_Config \<Rightarrow> real \<Rightarrow> real \<Rightarrow> VehicleType \<Rightarrow> Redis
     \<Rightarrow> (failure + 'u Driver) \<times> Redis" where
  "FindNearestDriver lib cfg pickupLat pickupLng vehicleType st =
     FindNearestDriver_loop lib cfg pickupLat pickupLng vehicleType (searchRadii cfg) st"

subsection \<open>The handler \<^verbatim>\<open>CreateRide\<close>\<close>

record CreateRideRequest =
  RiderID :: string
  PickupLatitude :: real
  PickupLongitude :: real
  DropoffLatitude :: real
  DropoffLongitude :: real
  req_VehicleType :: string

text \<open>
  The request is taken as decoded from the JSON payload. The binding tags of
  \<^verbatim>\<open>dto.CreateRideRequest\<close>: every field is \<^verbatim>\<open>required\<close> (not the
  zero value of its type) and the vehicle type is \<^verbatim>\<open>oneof=economy premium luxury\<close>.
\<close>

definition ShouldBindJSON :: "CreateRideRequest \<Rightarrow> bool" where
  "ShouldBindJSON req =
     (RiderID req \<noteq> [] \<and> PickupLatitude req \<noteq> 0 \<and> PickupLongitude req \<noteq> 0 \<and>
      DropoffLatitude req \<noteq> 0 \<and> DropoffLongitude req \<noteq> 0 \<and>
      req_VehicleType req \<noteq> [] \<and>
      req_VehicleType req \<in> {''economy'', ''premium'', ''luxury''})"

text \<open>
  The answers of the handler: 400 for a payload that does not bind, 200 with status
  \<^verbatim>\<open>requested\<close> and no driver, 500 when the ride cannot be stored, 200 with status
  \<^verbatim>\<open>assigned\<close> and the driver; a panic of the search leaves the handler.
\<close>

datatype 'u response =
    BadRequest
  | Requested
  | InternalServerError
  | Assigned "'u Driver"
  | Panicked

text \<open>
  \<open>rideID\<close> is the identifier \<^verbatim>\<open>generateRideID\<close> draws from the clock and \<open>stored\<close> says
  whether the INSERT into PostgreSQL succeeds. Notifications over the WebSocket hub do not
  touch Redis and are left out.
\<close>

definition CreateRide ::
  "'u uuid_pkg \<Rightarrow> string \<Rightarrow> bool \<Rightarrow> CreateRideRequest \<Rightarrow> Redis \<Rightarrow> 'u response \<times> Redis" where
  "CreateRide lib rideID stored req st =
     (if \<not> ShouldBindJSON req then (BadRequest, st)
      else
        let vehicleType =
              (if req_VehicleType req = ''economy'' then VehicleEconomy
               else if req_VehicleType req = ''premium'' then VehiclePremium
               else if req_VehicleType req = ''luxury'' then VehicleLuxury
               else VehicleEconomy);
            cfg = \<lparr>MaxRadiusKM = 5.0, MaxExpandedRadius = 50.0, MaxTimeout = 30,
                   MaxCandidates = 50\<rparr>;
            (found, st1) = FindNearestDriver lib cfg (PickupLatitude req) (PickupLongitude req)
                             vehicleType st
        in case found of
             Inl PanicSliceBounds \<Rightarrow> (Panicked, st1)
           | Inl e \<Rightarrow> (Requested, st1)
           | Inr foundDriver \<Rightarrow>
               if \<not> stored then (InternalServerError, st1)
               else
                 let driverIDStr = uuid_String lib (ID foundDriver);
                     (written, st2) =
                        redis_Set (''driver:'' @ driverIDStr @ '':current_ride'') rideID 0 st1
                 in (Assigned foundDriver, st2))"

subsection \<open>Startup validation (\<^verbatim>\<open>internal/config\<close>)\<close>

text \<open>
  The part of the application configuration that \<^verbatim>\<open>Validate\<close> reads, with the matching
  section beside it; the nested structs are flattened into one record. \<^verbatim>\<open>Validate\<close> returns
  the message of its error, or \<open>None\<close> for \<^verbatim>\<open>nil\<close>.
\<close>

record config_MatchingConfig =
  cm_MaxRadiusKM :: real
  cm_MaxTimeout :: int
  cm_MaxCandidates :: int

record app_Config =
  Server_Port :: string
  Server_Env :: string
  Database_Host :: string
  Database_Name :: string
  Redis_Host :: string
  JWT_Secret :: string
  Matching :: config_MatchingConfig

definition Validate :: "app_Config \<Rightarrow> string option" where
  "Validate c =
     (if Server_Port c = [] then Some ''SERVER_PORT is required''
      else if Database_Host c = [] then Some ''DB_HOST is required''
      else if Database_Name c = [] then Some ''DB_NAME is required''
      else if Redis_Host c = [] then Some ''REDIS_HOST is required''
      else if JWT_Secret c = ''your_jwt_secret_key_here'' \<and> Server_Env c = ''production''
           then Some ''JWT_SECRET must be set in production''
      else None)"

subsection \<open>Auxiliary notions for the statements\<close>

text \<open>Whether a command is a geo query.\<close>

fun is_GEORADIUS :: "redis_cmd \<Rightarrow> bool" where
  "is_GEORADIUS (GEORADIUS lng lat radius count) = True"
| "is_GEORADIUS c = False"

text \<open>The driver object that the claim loop builds for the candidate it has won.\<close>

definition claimedDriver :: "'u uuid_pkg \<Rightarrow> VehicleType \<Rightarrow> GeoLocation \<Rightarrow> 'u Driver" where
  "claimedDriver lib vehicleType result =
     \<lparr>ID = (case uuid_Parse lib (loc_Name result) of None \<Rightarrow> uuid_New lib | Some u \<Rightarrow> u),
      Name = ''Driver '' @ take 8 (loc_Name result),
      Status = StatusOnline,
      VehicleType = vehicleType,
      CurrentLatitude = Some (loc_Latitude result),
      CurrentLongitude = Some (loc_Longitude result),
      Rating = 4.8\<rparr>"

text \<open>The key of a candidate's current-ride marker.\<close>

definition markerKey :: "GeoLocation \<Rightarrow> string" where
  "markerKey c = ''driver:'' @ loc_Name c @ '':current_ride''"

text \<open>
  Three relations between the store before and after a piece of code, used in the proofs:
  \<open>quiet\<close> (the geo index is the same, no geo query was sent, and a store without
  pending outages stays so), \<open>unchanged\<close> (the available set and the string keys are the
  same) and \<open>claim_won\<close> (candidate \<open>c\<close> was removed from the available set, its marker was
  sent as the last command, and the outcome is built from \<open>c\<close>).
\<close>

definition quiet :: "Redis \<Rightarrow> Redis \<Rightarrow> bool" where
  "quiet st st' \<longleftrightarrow>
     geo_index st' = geo_index st \<and> (outages st = [] \<longrightarrow> outages st' = []) \<and>
     filter is_GEORADIUS (calls st') = filter is_GEORADIUS (calls st)"

definition unchanged :: "Redis \<Rightarrow> Redis \<Rightarrow> bool" where
  "unchanged st st' \<longleftrightarrow> available st' = available st \<and> strings st' = strings st"

definition claim_won ::
  "'u uuid_pkg \<Rightarrow> VehicleType \<Rightarrow> GeoLocation \<Rightarrow> Redis \<Rightarrow> Redis \<Rightarrow> failure + 'u Driver \<Rightarrow> bool" where
  "claim_won lib vt c st st' res \<longleftrightarrow>
     loc_Name c \<in> available st \<and>
     available st' = available st - {loc_Name c} \<and>
     (strings st' = strings st \<or> strings st' = (strings st)(markerKey c \<mapsto> (''claiming'', 30))) \<and>
     (outages st = [] \<longrightarrow> strings st' = (strings st)(markerKey c \<mapsto> (''claiming'', 30))) \<and>
     (\<exists>before. calls st' = before @ [SREM (loc_Name c), SETEX (markerKey c) ''claiming'' 30]) \<and>
     res = (if length (loc_Name c) < 8 then Inl PanicSliceBounds
            else Inr (claimedDriver lib vt c))"

text \<open>An outcome of a search after which \<^verbatim>\<open>FindNearestDriver\<close> moves on to the next radius.\<close>

fun no_driver :: "failure + 'u Driver \<Rightarrow> bool" where
  "no_driver (Inl ErrDriverNotAvailable) = True"
| "no_driver (Inl (SearchFailed e)) = True"
| "no_driver (Inl PanicSliceBounds) = False"
| "no_driver (Inr d) = False"

text \<open>The geo queries for a list of radii, in order.\<close>

definition geo_queries :: "real \<Rightarrow> real \<Rightarrow> int \<Rightarrow> real list \<Rightarrow> redis_cmd list" where
  "geo_queries lng lat count rs = map (\<lambda>r. GEORADIUS lng lat r count) rs"

text \<open>
  The configuration that \<^verbatim>\<open>CreateRide\<close> passes to the matching service and the vehicle
  type its \<^verbatim>\<open>switch\<close> selects, as terms of their own.
\<close>

definition handlerConfig :: matching_Config where
  "handlerConfig = \<lparr>MaxRadiusKM = 5.0, MaxExpandedRadius = 50.0, MaxTimeout = 30,
                     MaxCandidates = 50\<rparr>"

definition parseVehicleType :: "string \<Rightarrow> VehicleType" where
  "parseVehicleType s =
     (if s = ''economy'' then VehicleEconomy
      else if s = ''premium'' then VehiclePremium
      else if s = ''luxury'' then VehicleLuxury
      else VehicleEconomy)"

subsection \<open>Concrete stores and parameters for the examples\<close>

definition emptyRedis :: Redis where
  "emptyRedis = \<lparr>geo_index = (\<lambda>lng lat radius count. []), available = {},
     strings = Map.empty, outages = [], calls = []\<rparr>"

text \<open>A store in which region \<^verbatim>\<open>blr\<close> has the cached surge value \<^verbatim>\<open>5\<close>.\<close>

definition surgeRedis :: Redis where
  "surgeRedis = emptyRedis\<lparr>strings := [''surge:blr'' \<mapsto> (''5'', 0)]\<rparr>"

text \<open>A store in which region \<^verbatim>\<open>blr\<close> has the cached surge value \<^verbatim>\<open>NaN\<close>.\<close>

definition nanRedis :: Redis where
  "nanRedis = emptyRedis\<lparr>strings := [''surge:blr'' \<mapsto> (''NaN'', 0)]\<rparr>"

text \<open>
  A float parser that reads the two texts the examples store under a surge key, as
  \<^verbatim>\<open>strconv.ParseFloat\<close> reads them.
\<close>

definition demoParseFloat :: "string \<Rightarrow> float64 option" where
  "demoParseFloat s =
     (if s = ''5'' then Some (Finite 5) else if s = ''NaN'' then Some NaN else None)"

text \<open>
  A stand-in for the UUID package: it accepts the 36-character texts and renders a UUID
  as that text. Like \<^verbatim>\<open>uuid.Parse\<close>, it rejects the 11-byte text \<^verbatim>\<open>driver-0001\<close>.
\<close>

definition demoUuid :: "string uuid_pkg" where
  "demoUuid = \<lparr>uuid_Parse = (\<lambda>s. if length s = 36 then Some s else None),
                uuid_New = ''6ba7b810-9dad-41d1-80b4-00c04fd430c8'',
                uuid_String = (\<lambda>u. u)\<rparr>"

text \<open>Candidates: two whose names are UUIDs, one with a plain name, one with a short name.\<close>

definition candA :: GeoLocation where
  "candA = \<lparr>loc_Name = ''11111111-1111-4111-8111-111111111111'', loc_Longitude = 77.5,
            loc_Latitude = 12.5, loc_Dist = 1.5\<rparr>"

definition candB :: GeoLocation where
  "candB = \<lparr>loc_Name = ''22222222-2222-4222-8222-222222222222'', loc_Longitude = 77.75,
            loc_Latitude = 12.75, loc_Dist = 3\<rparr>"

definition candN :: GeoLocation where
  "candN = \<lparr>loc_Name = ''driver-0001'', loc_Longitude = 77.5, loc_Latitude = 12.5,
            loc_Dist = 1.5\<rparr>"

definition candS :: GeoLocation where
  "candS = \<lparr>loc_Name = ''d1'', loc_Longitude = 77.5, loc_Latitude = 12.5, loc_Dist = 1.5\<rparr>"

text \<open>
  Stores: both UUID candidates available and found from 20 km on; the same candidates
  found at every radius but none available; the plain and the short candidate available;
  the first store after candidate A has been claimed; a store that fails the next four
  commands.
\<close>

definition twoAvailable :: Redis where
  "twoAvailable = emptyRedis
     \<lparr>geo_index := (\<lambda>lng lat radius count. if 20 \<le> radius then [candA, candB] else []),
      available := {loc_Name candA, loc_Name candB}\<rparr>"

definition noneAvailable :: Redis where
  "noneAvailable = emptyRedis\<lparr>geo_index := (\<lambda>lng lat radius count. [candA, candB])\<rparr>"

definition plainIdAvailable :: Redis where
  "plainIdAvailable = emptyRedis
     \<lparr>geo_index := (\<lambda>lng lat radius count. [candN]), available := {loc_Name candN}\<rparr>"

definition shortIdAvailable :: Redis where
  "shortIdAvailable = emptyRedis
     \<lparr>geo_index := (\<lambda>lng lat radius count. [candS]), available := {loc_Name candS}\<rparr>"


definition rejectingRedis :: Redis where
  "rejectingRedis = emptyRedis\<lparr>outages := [True, True, True, True]\<rparr>"

text \<open>Requests: one with latitude 91, one with an unknown vehicle class.\<close>

definition reqLat91 :: CreateRideRequest where
  "reqLat91 = \<lparr>RiderID = ''rider-1'', PickupLatitude = 91, PickupLongitude = 77.5,
     DropoffLatitude = 12.75, DropoffLongitude = 77.75, req_VehicleType = ''economy''\<rparr>"

definition reqUnknownClass :: CreateRideRequest where
  "reqUnknownClass = \<lparr>RiderID = ''rider-1'', PickupLatitude = 12.5, PickupLongitude = 77.5,
     DropoffLatitude = 12.75, DropoffLongitude = 77.75, req_VehicleType = ''helicopter''\<rparr>"

section \<open>Pricing: fare and surge\<close>

subsection \<open>The surge curve by ratio\<close>

lemma surge_by_ratio:
  assumes "w \<noteq> 0" and "r = real_of_int a / real_of_int w"
  shows "CalculateSurgeBasedOnDemand cfg a w =
     (if r < 1/2 then 1
      else if r < 1 then 1 + r / 2
      else if r < 2 then 3/2 + (r - 1)
      else if MaxSurgeMultiplier cfg < 5/2 + (r - 2) / 4 then MaxSurgeMultiplier cfg
      else 5/2 + (r - 2) / 4)"
  using assms by (simp add: CalculateSurgeBasedOnDemand_def Let_def)

lemma surge_no_supply: "CalculateSurgeBasedOnDemand cfg a 0 = MaxSurgeMultiplier cfg"
  by (simp add: CalculateSurgeBasedOnDemand_def)

lemma surge_within_default_band:
  assumes "MinSurgeMultiplier cfg \<le> 1" "5/2 \<le> MaxSurgeMultiplier cfg"
  shows "MinSurgeMultiplier cfg \<le> CalculateSurgeBasedOnDemand cfg a w \<and>
         CalculateSurgeBasedOnDemand cfg a w \<le> MaxSurgeMultiplier cfg"
proof (cases "w = 0")
  case True
  then show ?thesis using assms by (simp add: surge_no_supply)
next
  case False
  define r where "r = real_of_int a / real_of_int w"
  show ?thesis unfolding surge_by_ratio[OF False r_def] using assms by argo
qed

text \<open>
  With a cap of at least 2.5 the curve is monotone in the number of active rides; the
  cap is then reached by the last piece only.
\<close>

lemma surge_monotone_high_cap:
  assumes m: "5/2 \<le> MaxSurgeMultiplier cfg" and w: "0 < w" and a: "a1 \<le> a2"
  shows "CalculateSurgeBasedOnDemand cfg a1 w \<le> CalculateSurgeBasedOnDemand cfg a2 w"
proof -
  define r1 where "r1 = real_of_int a1 / real_of_int w"
  define r2 where "r2 = real_of_int a2 / real_of_int w"
  have r: "r1 \<le> r2"
    unfolding r1_def r2_def using w a by (simp add: divide_right_mono)
  have w0: "w \<noteq> 0" using w by simp
  show ?thesis
    unfolding surge_by_ratio[OF w0 r1_def] surge_by_ratio[OF w0 r2_def] using m r by argo
qed

subsection \<open>Reading the cached surge value\<close>

lemma GetSurge_read:
  "fst (GetSurgeMultiplier pf cfg region st) =
     (case fst (redis_GetFloat64 pf (''surge:'' @ region) st) of
        Inl e \<Rightarrow> Finite 1
      | Inr val \<Rightarrow> if float64_gt val (MaxSurgeMultiplier cfg)
                   then Finite (MaxSurgeMultiplier cfg)
                   else if float64_lt val (MinSurgeMultiplier cfg)
                   then Finite (MinSurgeMultiplier cfg) else val)"
  by (simp add: GetSurgeMultiplier_def Let_def split: prod.splits sum.splits)

lemma GetFloat64_fails:
  assumes "strings st key = None \<or> (\<exists>later. outages st = True # later) \<or>
           (\<exists>v ttl. strings st key = Some (v, ttl) \<and> pf v = None)"
  shows "isl (fst (redis_GetFloat64 pf key st))"
  using assms
  by (auto simp: redis_GetFloat64_def redis_Get_def issue_def Let_def
           split: list.splits option.splits)

lemma GetFloat64_surgeRedis:
  "fst (redis_GetFloat64 demoParseFloat (''surge:'' @ ''blr'') surgeRedis) = Inr (Finite 5)"
  by (simp add: redis_GetFloat64_def redis_Get_def issue_def Let_def surgeRedis_def
        emptyRedis_def demoParseFloat_def)

lemma GetFloat64_nanRedis:
  "fst (redis_GetFloat64 demoParseFloat (''surge:'' @ ''blr'') nanRedis) = Inr NaN"
  by (simp add: redis_GetFloat64_def redis_Get_def issue_def Let_def nanRedis_def
        emptyRedis_def demoParseFloat_def)

lemma CalculateFare_surge:
  "fb_SurgeMultiplier (fst (CalculateFare pf cfg vt d m region st))
     = fst (GetSurgeMultiplier pf cfg region st) \<and>
   fb_Total (fst (CalculateFare pf cfg vt d m region st))
     = float64_times (fb_Subtotal (fst (CalculateFare pf cfg vt d m region st)))
         (fst (GetSurgeMultiplier pf cfg region st))"
  by (simp add: CalculateFare_def Let_def split: prod.splits)

text \<open>
  A value that was read and is not NaN leaves \<^verbatim>\<open>GetSurgeMultiplier\<close> as a number within
  the band, provided the band is not empty; a number \<open>v\<close> leaves it as the nearest number
  of the band.
\<close>

lemma GetSurge_clamps:
  assumes band: "MinSurgeMultiplier cfg \<le> MaxSurgeMultiplier cfg"
    and read: "fst (redis_GetFloat64 pf (''surge:'' @ region) st) = Inr val"
    and num: "val \<noteq> NaN"
  shows "\<exists>r. fst (GetSurgeMultiplier pf cfg region st) = Finite r \<and>
             MinSurgeMultiplier cfg \<le> r \<and> r \<le> MaxSurgeMultiplier cfg \<and>
             (\<forall>v. val = Finite v \<longrightarrow>
                r = max (MinSurgeMultiplier cfg) (min (MaxSurgeMultiplier cfg) v))"
proof (cases val)
  case (Finite v)
  then show ?thesis using band read by (simp add: GetSurge_read max_def min_def)
next
  case PosInf
  then show ?thesis using band read by (simp add: GetSurge_read)
next
  case NegInf
  then show ?thesis using band read by (simp add: GetSurge_read)
next
  case NaN
  then show ?thesis using num by simp
qed

text \<open>
  When the cached surge value of a region is absent, or the read fails, or the value
  read is not a number text, \<^verbatim>\<open>GetSurgeMultiplier\<close> returns exactly 1.0 without clamping, so
  \<^verbatim>\<open>CalculateFare\<close> applies the multiplier 1.0 (the total equals the subtotal), which lies
  below the configured band whenever the minimum is above 1.0.
\<close>

lemma surge_default_on_failed_read:
  assumes "strings st (''surge:'' @ region) = None \<or> (\<exists>later. outages st = True # later) \<or>
     (\<exists>v ttl. strings st (''surge:'' @ region) = Some (v, ttl) \<and> pf v = None)"
  shows "fst (GetSurgeMultiplier pf cfg region st) = Finite 1.0 \<and>
      fb_SurgeMultiplier (fst (CalculateFare pf cfg vt d m region st)) = Finite 1.0 \<and>
      fb_Total (fst (CalculateFare pf cfg vt d m region st))
        = Finite (fb_Subtotal (fst (CalculateFare pf cfg vt d m region st))) \<and>
      (1.0 < MinSurgeMultiplier cfg \<longrightarrow>
         float64_lt (fb_SurgeMultiplier (fst (CalculateFare pf cfg vt d m region st)))
           (MinSurgeMultiplier cfg))"
proof -
  from GetFloat64_fails[OF assms]
  obtain e where "fst (redis_GetFloat64 pf (''surge:'' @ region) st) = Inl e"
    by (auto simp: isl_def)
  then have one: "fst (GetSurgeMultiplier pf cfg region st) = Finite 1"
    by (simp add: GetSurge_read)
  then show ?thesis
    by (simp add: CalculateFare_surge)
qed

subsection \<open>The claims on pricing\<close>

text \<open>
  C3, as amended. For every pair of integer inputs and every configuration with
  \<open>MinSurgeMultiplier \<le> 1.0\<close> and \<open>MaxSurgeMultiplier \<ge> 2.5\<close> (the defaults are 1.0 and 3.0)
  the multiplier of \<^verbatim>\<open>CalculateSurgeBasedOnDemand\<close> lies in the closed interval from the
  minimum to the maximum; the function applies no lower clamp, so a minimum configured
  above 1.0 is not enforced by it. A cached value that \<^verbatim>\<open>GetSurgeMultiplier\<close> reads
  successfully and that is not NaN is clamped into the interval whenever the minimum does
  not exceed the maximum: the value returned is a number of the interval, and for a
  number read it is the nearest number of the interval.
\<close>

theorem C3_surge_in_band_for_default_shape:
  "(MinSurgeMultiplier cfg \<le> 1.0 \<and> 2.5 \<le> MaxSurgeMultiplier cfg \<longrightarrow>
      MinSurgeMultiplier cfg \<le> CalculateSurgeBasedOnDemand cfg a w \<and>
      CalculateSurgeBasedOnDemand cfg a w \<le> MaxSurgeMultiplier cfg) \<and>
   (MinSurgeMultiplier cfg \<le> MaxSurgeMultiplier cfg \<and>
    fst (redis_GetFloat64 pf (''surge:'' @ region) st) = Inr val \<and> val \<noteq> NaN \<longrightarrow>
      (\<exists>r. fst (GetSurgeMultiplier pf cfg region st) = Finite r \<and>
           MinSurgeMultiplier cfg \<le> r \<and> r \<le> MaxSurgeMultiplier cfg \<and>
           (\<forall>v. val = Finite v \<longrightarrow>
              r = max (MinSurgeMultiplier cfg) (min (MaxSurgeMultiplier cfg) v))))"
proof (intro conjI impI)
  assume "MinSurgeMultiplier cfg \<le> 1.0 \<and> 2.5 \<le> MaxSurgeMultiplier cfg"
  then have b: "MinSurgeMultiplier cfg \<le> 1" "5/2 \<le> MaxSurgeMultiplier cfg" by simp_all
  show "MinSurgeMultiplier cfg \<le> CalculateSurgeBasedOnDemand cfg a w"
    using surge_within_default_band[OF b] by simp
  show "CalculateSurgeBasedOnDemand cfg a w \<le> MaxSurgeMultiplier cfg"
    using surge_within_default_band[OF b] by simp
next
  assume h: "MinSurgeMultiplier cfg \<le> MaxSurgeMultiplier cfg \<and>
    fst (redis_GetFloat64 pf (''surge:'' @ region) st) = Inr val \<and> val \<noteq> NaN"
  then have band: "MinSurgeMultiplier cfg \<le> MaxSurgeMultiplier cfg"
    and read: "fst (redis_GetFloat64 pf (''surge:'' @ region) st) = Inr val"
    and num: "val \<noteq> NaN" by simp_all
  show "\<exists>r. fst (GetSurgeMultiplier pf cfg region st) = Finite r \<and>
           MinSurgeMultiplier cfg \<le> r \<and> r \<le> MaxSurgeMultiplier cfg \<and>
           (\<forall>v. val = Finite v \<longrightarrow>
              r = max (MinSurgeMultiplier cfg) (min (MaxSurgeMultiplier cfg) v))"
    using GetSurge_clamps[OF band read num] .
qed

text \<open>
  The test configuration with the inputs (100, 10), and the cached value 5 of region
  \<^verbatim>\<open>blr\<close>, which is returned as 3.
\<close>

theorem C3_surge_in_band_witness:
  "MinSurgeMultiplier getTestConfig \<le> 1.0 \<and> 2.5 \<le> MaxSurgeMultiplier getTestConfig \<and>
   fst (redis_GetFloat64 demoParseFloat (''surge:'' @ ''blr'') surgeRedis) = Inr (Finite 5) \<and>
   1 \<le> CalculateSurgeBasedOnDemand getTestConfig 100 10 \<and>
   CalculateSurgeBasedOnDemand getTestConfig 100 10 \<le> 3 \<and>
   fst (GetSurgeMultiplier demoParseFloat getTestConfig ''blr'' surgeRedis) = Finite 3"
proof -
  note t = C3_surge_in_band_for_default_shape
          [of getTestConfig 100 10 demoParseFloat "''blr''" surgeRedis "Finite 5"]
  have c: "1 \<le> CalculateSurgeBasedOnDemand getTestConfig 100 10 \<and>
           CalculateSurgeBasedOnDemand getTestConfig 100 10 \<le> 3"
    using t[THEN conjunct1] by (simp add: getTestConfig_def)
  have "\<exists>r. fst (GetSurgeMultiplier demoParseFloat getTestConfig ''blr'' surgeRedis) = Finite r \<and>
           MinSurgeMultiplier getTestConfig \<le> r \<and> r \<le> MaxSurgeMultiplier getTestConfig \<and>
           (\<forall>v. Finite 5 = Finite v \<longrightarrow>
              r = max (MinSurgeMultiplier getTestConfig) (min (MaxSurgeMultiplier getTestConfig) v))"
    using t[THEN conjunct2] GetFloat64_surgeRedis by (simp add: getTestConfig_def)
  then have g: "fst (GetSurgeMultiplier demoParseFloat getTestConfig ''blr'' surgeRedis) = Finite 3"
    by (auto simp add: getTestConfig_def)
  show ?thesis using c g GetFloat64_surgeRedis by (simp add: getTestConfig_def)
qed

text \<open>
  C3 as stated fails: with the minimum configured as 1.5 (and the maximum 3.0) the inputs
  (5, 20) give the multiplier 1.0, below the interval.
\<close>

theorem C3_surge_below_band_counterexample:
  "\<not> (MinSurgeMultiplier (getTestConfig\<lparr>MinSurgeMultiplier := 1.5\<rparr>)
        \<le> CalculateSurgeBasedOnDemand (getTestConfig\<lparr>MinSurgeMultiplier := 1.5\<rparr>) 5 20 \<and>
      CalculateSurgeBasedOnDemand (getTestConfig\<lparr>MinSurgeMultiplier := 1.5\<rparr>) 5 20
        \<le> MaxSurgeMultiplier (getTestConfig\<lparr>MinSurgeMultiplier := 1.5\<rparr>))"
  by (simp add: CalculateSurgeBasedOnDemand_def getTestConfig_def)

text \<open>
  C4. \<^verbatim>\<open>CalculateSurgeBasedOnDemand\<close> equals the reference curve of the specification on
  the ratio of active rides to available drivers, with the maximum for no available
  driver; at (5, 20) it is 1.0, at (40, 20) it is 2.5 or the maximum if that is smaller,
  at (100, 0) it is the maximum.
\<close>

theorem C4_surge_matches_reference_curve:
  "CalculateSurgeBasedOnDemand cfg a w = ComputeSurge_spec (MaxSurgeMultiplier cfg) a w \<and>
   CalculateSurgeBasedOnDemand cfg 5 20 = 1.0 \<and>
   CalculateSurgeBasedOnDemand cfg 40 20 = min 2.5 (MaxSurgeMultiplier cfg) \<and>
   CalculateSurgeBasedOnDemand cfg 100 0 = MaxSurgeMultiplier cfg"
  by (simp add: CalculateSurgeBasedOnDemand_def ComputeSurge_spec_def surge_curve_spec_def
        Let_def min_def)

text \<open>
  C6. For every vehicle class, distance and duration \<^verbatim>\<open>EstimateFare\<close> is the base fare
  of the class plus distance times its rate per kilometre plus minutes times its rate per
  minute, with nothing else added or floored: a trip of zero distance and zero duration
  costs the base fare, and with the rates 50, 10 and 2 for economy the fares of
  (10 km, 20 min) and (0 km, 10 min) are 190 and 70.
\<close>

theorem C6_estimate_fare_formula:
  "EstimateFare cfg vt distanceKm durationMinutes =
     map_index (BaseFare cfg) vt + distanceKm * map_index (PerKMRate cfg) vt
       + real_of_int durationMinutes * map_index (PerMinuteRate cfg) vt \<and>
   EstimateFare cfg vt 0 0 = map_index (BaseFare cfg) vt \<and>
   EstimateFare getTestConfig VehicleEconomy 10 20 = 190.0 \<and>
   EstimateFare getTestConfig VehicleEconomy 0 10 = 70.0"
  by (simp add: EstimateFare_def getTestConfig_def map_index_def VehicleEconomy_def
        VehiclePremium_def VehicleLuxury_def)

text \<open>
  C9, evaluated where the code departs from it. With the maximum configured as 2.0 and
  ten available drivers, nineteen active rides give 2.4 and twenty give 2.0: the
  multiplier falls as demand grows, and 2.4 exceeds the value 2.0 returned for no
  available driver. The cap is applied in the last piece of the curve only.
\<close>

theorem C9_surge_falls_at_low_cap:
  "CalculateSurgeBasedOnDemand (getTestConfig\<lparr>MaxSurgeMultiplier := 2.0\<rparr>) 19 10 = 2.4 \<and>
   CalculateSurgeBasedOnDemand (getTestConfig\<lparr>MaxSurgeMultiplier := 2.0\<rparr>) 20 10 = 2.0 \<and>
   CalculateSurgeBasedOnDemand (getTestConfig\<lparr>MaxSurgeMultiplier := 2.0\<rparr>) 19 0 = 2.0"
  by (simp add: CalculateSurgeBasedOnDemand_def getTestConfig_def)

text \<open>
  C10, evaluated where the code departs from it. The claim's first part holds (lemma
  \<open>surge_default_on_failed_read\<close>). Its last part, that a cached value read successfully is
  clamped into the band, fails for the cached text \<^verbatim>\<open>NaN\<close>: the read succeeds,
  both comparisons of \<^verbatim>\<open>GetSurgeMultiplier\<close> are false, and NaN is returned unclamped, with
  the band from 1.0 to 3.0 configured; \<^verbatim>\<open>CalculateFare\<close> then applies NaN and its total is
  NaN.
\<close>

theorem C10_cached_NaN_returned_unclamped:
  "fst (redis_GetFloat64 demoParseFloat (''surge:'' @ ''blr'') nanRedis) = Inr NaN \<and>
   MinSurgeMultiplier getTestConfig = 1.0 \<and> MaxSurgeMultiplier getTestConfig = 3.0 \<and>
   fst (GetSurgeMultiplier demoParseFloat getTestConfig ''blr'' nanRedis) = NaN \<and>
   fb_SurgeMultiplier
     (fst (CalculateFare demoParseFloat getTestConfig VehicleEconomy 10 20 ''blr'' nanRedis))
     = NaN \<and>
   fb_Total
     (fst (CalculateFare demoParseFloat getTestConfig VehicleEconomy 10 20 ''blr'' nanRedis))
     = NaN"
proof -
  have g: "fst (GetSurgeMultiplier demoParseFloat getTestConfig ''blr'' nanRedis) = NaN"
    using GetFloat64_nanRedis by (simp add: GetSurge_read)
  show ?thesis
    using g GetFloat64_nanRedis by (simp add: CalculateFare_surge getTestConfig_def)
qed

section \<open>Matching: claim pass and radius search\<close>

subsection \<open>Effect of the store commands\<close>

lemma issue_effect:
  assumes "issue c st = (down, st1)"
  shows "geo_index st1 = geo_index st" "available st1 = available st"
    "strings st1 = strings st" "calls st1 = calls st @ [c]"
    "outages st = [] \<Longrightarrow> outages st1 = [] \<and> \<not> down"
  using assms by (auto simp: issue_def split: list.splits)

lemma redis_Get_effect:
  assumes "redis_Get key st = (r, st1)"
  shows "geo_index st1 = geo_index st" "available st1 = available st"
    "strings st1 = strings st" "calls st1 = calls st @ [GET key]"
    "outages st = [] \<Longrightarrow> outages st1 = []"
  using assms
  by (auto simp: redis_Get_def Let_def split: prod.splits if_splits option.splits
           dest: issue_effect)

lemma redis_SRem_effect:
  assumes "redis_SRem member st = (r, st1)"
  shows "geo_index st1 = geo_index st"
    "strings st1 = strings st" "calls st1 = calls st @ [SREM member]"
    "outages st = [] \<Longrightarrow> outages st1 = []"
    "r = Inr n \<Longrightarrow> n \<noteq> 0 \<Longrightarrow> member \<in> available st \<and> available st1 = available st - {member}"
    "r = Inl e \<Longrightarrow> available st1 = available st"
    "r = Inr 0 \<Longrightarrow> available st1 = available st"
  using assms
  by (auto simp: redis_SRem_def Let_def split: prod.splits if_splits
           dest: issue_effect)

lemma redis_Set_effect:
  assumes "redis_Set key v ttl st = (r, st1)"
  shows "geo_index st1 = geo_index st" "available st1 = available st"
    "calls st1 = calls st @ [SETEX key v ttl]"
    "outages st = [] \<Longrightarrow> outages st1 = []"
    "strings st1 = strings st \<or> strings st1 = (strings st)(key \<mapsto> (v, ttl))"
    "outages st = [] \<Longrightarrow> strings st1 = (strings st)(key \<mapsto> (v, ttl))"
  using assms
  by (auto simp: redis_Set_def Let_def split: prod.splits if_splits
           dest: issue_effect)

lemma redis_GeoRadius_effect:
  assumes "redis_GeoRadius lng lat radius count st = (r, st1)"
  shows "geo_index st1 = geo_index st" "available st1 = available st"
    "strings st1 = strings st"
    "calls st1 = calls st @ [GEORADIUS lng lat radius count]"
    "outages st = [] \<Longrightarrow> outages st1 = []"
    "r = Inr rs \<Longrightarrow> rs = geo_index st lng lat radius count"
  using assms
  by (auto simp: redis_GeoRadius_def Let_def split: prod.splits if_splits
           dest: issue_effect)

subsection \<open>The claim pass\<close>

lemma quiet_refl: "quiet a a"
  by (simp add: quiet_def)

lemma unchanged_refl: "unchanged a a"
  by (simp add: unchanged_def)

lemma quiet_trans: "quiet a b \<Longrightarrow> quiet b c \<Longrightarrow> quiet a c"
  by (simp add: quiet_def)

lemma unchanged_trans: "unchanged a b \<Longrightarrow> unchanged b c \<Longrightarrow> unchanged a c"
  by (simp add: unchanged_def)

lemma claim_won_after:
  "unchanged a b \<Longrightarrow> (outages a = [] \<longrightarrow> outages b = []) \<Longrightarrow>
   claim_won lib vt c b st' res \<Longrightarrow> claim_won lib vt c a st' res"
  by (simp add: unchanged_def claim_won_def)

lemma quiet_outages: "quiet a b \<Longrightarrow> outages a = [] \<longrightarrow> outages b = []"
  by (simp add: quiet_def)

lemma redis_Get_quiet: "redis_Get key st = (r, st1) \<Longrightarrow> quiet st st1 \<and> unchanged st st1"
  using redis_Get_effect[of key st r st1] by (simp add: quiet_def unchanged_def)

lemma redis_SRem_quiet: "redis_SRem m st = (r, st1) \<Longrightarrow> quiet st st1"
  using redis_SRem_effect(1-4)[of m st r st1] by (simp add: quiet_def)

lemma redis_SRem_lost:
  "redis_SRem m st = (r, st1) \<Longrightarrow> \<not> (case r of Inl e \<Rightarrow> False | Inr n \<Rightarrow> n \<noteq> 0)
     \<Longrightarrow> unchanged st st1"
  using redis_SRem_effect(2,6,7)[of m st r st1] by (cases r) (auto simp add: unchanged_def)

lemma redis_Set_quiet: "redis_Set k v t st = (r, st1) \<Longrightarrow> quiet st st1"
  using redis_Set_effect(1-4)[of k v t st r st1] by (simp add: quiet_def)

lemma loop_step:
  "searchDriversInRadius_loop lib vt (c # cs) st =
     (case redis_Get (markerKey c) st of (g, st1) \<Rightarrow>
        if (case g of Inl e \<Rightarrow> False | Inr v \<Rightarrow> v \<noteq> [])
        then searchDriversInRadius_loop lib vt cs st1
        else (case redis_SRem (loc_Name c) st1 of (r, st2) \<Rightarrow>
           if (case r of Inl e \<Rightarrow> False | Inr n \<Rightarrow> n \<noteq> 0)
           then (case redis_Set (markerKey c) ''claiming'' 30 st2 of (w, st3) \<Rightarrow>
                   (if length (loc_Name c) < 8 then Inl PanicSliceBounds
                    else Inr (claimedDriver lib vt c), st3))
           else searchDriversInRadius_loop lib vt cs st2))"
  by (simp add: markerKey_def claimedDriver_def Let_def split: prod.splits sum.splits)

declare searchDriversInRadius_loop.simps(2) [simp del]

lemma outcome_after:
  assumes q: "quiet a b" and u: "unchanged a b"
    and o: "quiet b st' \<and>
       (res = Inl ErrDriverNotAvailable \<and> unchanged b st'
        \<or> (\<exists>c \<in> set cs. claim_won lib vt c b st' res))"
  shows "quiet a st' \<and>
       (res = Inl ErrDriverNotAvailable \<and> unchanged a st'
        \<or> (\<exists>c \<in> set (x # cs). claim_won lib vt c a st' res))"
proof -
  have q': "quiet a st'" using q o quiet_trans by blast
  from o consider (lost) "res = Inl ErrDriverNotAvailable" "unchanged b st'"
    | (won) c where "c \<in> set cs" "claim_won lib vt c b st' res" by blast
  then show ?thesis
  proof cases
    case lost
    then show ?thesis using q' u unchanged_trans by blast
  next
    case won
    have "claim_won lib vt c a st' res"
      using claim_won_after[OF u quiet_outages[OF q] won(2)] .
    moreover have "c \<in> set (x # cs)" using won(1) by simp
    ultimately show ?thesis using q' by blast
  qed
qed

lemma loop_outcome:
  "searchDriversInRadius_loop lib vt cs st = (res, st') \<Longrightarrow>
     quiet st st' \<and>
     (res = Inl ErrDriverNotAvailable \<and> unchanged st st'
      \<or> (\<exists>c \<in> set cs. claim_won lib vt c st st' res))"
proof (induction cs arbitrary: st)
  case Nil
  then show ?case by (simp add: quiet_def unchanged_def)
next
  case (Cons c cs)
  obtain g st1 where g: "redis_Get (markerKey c) st = (g, st1)" by fastforce
  note ge = redis_Get_quiet[OF g]
  show ?case
  proof (cases "case g of Inl e \<Rightarrow> False | Inr v \<Rightarrow> v \<noteq> []")
    case True
    then have "searchDriversInRadius_loop lib vt cs st1 = (res, st')"
      using Cons.prems g by (simp add: loop_step)
    from Cons.IH[OF this] show ?thesis
      using outcome_after ge by blast
  next
    case False
    obtain r st2 where r: "redis_SRem (loc_Name c) st1 = (r, st2)" by fastforce
    note rq = redis_SRem_quiet[OF r]
    show ?thesis
    proof (cases "case r of Inl e \<Rightarrow> False | Inr n \<Rightarrow> n \<noteq> 0")
      case lost: False
      then have "searchDriversInRadius_loop lib vt cs st2 = (res, st')"
        using Cons.prems g r False by (simp add: loop_step)
      note ih = Cons.IH[OF this]
      have q: "quiet st st2" using ge rq quiet_trans by blast
      have u: "unchanged st st2" using ge redis_SRem_lost[OF r lost] unchanged_trans by blast
      show ?thesis
        using outcome_after[OF q u ih] .
    next
      case won: True
      then obtain n where n: "r = Inr n" "n \<noteq> 0" by (cases r) auto
      obtain w st3 where w: "redis_Set (markerKey c) ''claiming'' 30 st2 = (w, st3)"
        by fastforce
      have res: "res = (if length (loc_Name c) < 8 then Inl PanicSliceBounds
                      else Inr (claimedDriver lib vt c))" "st' = st3"
        using Cons.prems g r False won w by (simp_all add: loop_step)
      have q: "quiet st st3" using ge rq redis_Set_quiet[OF w] quiet_trans by blast
      have "claim_won lib vt c st1 st3 res"
        unfolding claim_won_def
        using redis_SRem_effect(2,3,4)[OF r] redis_SRem_effect(5)[OF r n]
          redis_Set_effect(2,3,5,6)[OF w] res(1)
        by simp
      then have "claim_won lib vt c st st3 res"
        using ge claim_won_after quiet_outages by blast
      then show ?thesis unfolding res(2) using q by auto
    qed
  qed
qed

lemma loop_step_with:
  assumes "redis_Get (markerKey c) st = (g, st1)"
    and "redis_SRem (loc_Name c) st1 = (r, st2)"
    and "redis_Set (markerKey c) ''claiming'' 30 st2 = (w, st3)"
  shows "searchDriversInRadius_loop lib vt (c # cs) st =
     (if (case g of Inl e \<Rightarrow> False | Inr v \<Rightarrow> v \<noteq> [])
      then searchDriversInRadius_loop lib vt cs st1
      else if (case r of Inl e \<Rightarrow> False | Inr n \<Rightarrow> n \<noteq> 0)
      then (if length (loc_Name c) < 8 then Inl PanicSliceBounds
            else Inr (claimedDriver lib vt c), st3)
      else searchDriversInRadius_loop lib vt cs st2)"
  by (simp add: loop_step assms)


lemma loop_append_lost:
  "searchDriversInRadius_loop lib vt cs st = (Inl ErrDriverNotAvailable, st1)
     \<Longrightarrow> searchDriversInRadius_loop lib vt (cs @ rest) st
           = searchDriversInRadius_loop lib vt rest st1"
proof (induction cs arbitrary: st)
  case Nil
  then show ?case by simp
next
  case (Cons c cs)
  obtain g sa where g: "redis_Get (markerKey c) st = (g, sa)" by fastforce
  obtain r sb where r: "redis_SRem (loc_Name c) sa = (r, sb)" by fastforce
  obtain w sc where w: "redis_Set (markerKey c) ''claiming'' 30 sb = (w, sc)"
    by fastforce
  note step = loop_step_with[OF g r w]
  show ?case
  proof (cases "case g of Inl e \<Rightarrow> False | Inr v \<Rightarrow> v \<noteq> []")
    case True
    then have "searchDriversInRadius_loop lib vt cs sa = (Inl ErrDriverNotAvailable, st1)"
      using Cons.prems by (simp add: step)
    from Cons.IH[OF this] show ?thesis
      using True by (simp add: step)
  next
    case False
    show ?thesis
    proof (cases "case r of Inl e \<Rightarrow> False | Inr n \<Rightarrow> n \<noteq> 0")
      case True
      then show ?thesis using Cons.prems False by (simp add: step split: if_splits)
    next
      case lost: False
      then have "searchDriversInRadius_loop lib vt cs sb = (Inl ErrDriverNotAvailable, st1)"
        using Cons.prems False by (simp add: step)
      from Cons.IH[OF this] show ?thesis
        using False lost by (simp add: step)
    qed
  qed
qed

lemma claim_won_not_lost: "claim_won lib vt c st st' res \<Longrightarrow> res \<noteq> Inl ErrDriverNotAvailable"
  by (simp add: claim_won_def)

lemma claim_won_removed: "claim_won lib vt c st st' res \<Longrightarrow> available st' \<noteq> available st"
  by (auto simp add: claim_won_def)

subsection \<open>One search and the loop over the radii\<close>

lemma claim_won_no_driver: "claim_won lib vt c st st' res \<Longrightarrow> \<not> no_driver res"
  by (simp add: claim_won_def)

lemma search_outcome:
  assumes s: "searchDriversInRadius lib cfg lat lng radius vt st = (res, st')"
  shows "geo_index st' = geo_index st"
    and "outages st = [] \<longrightarrow> outages st' = []"
    and "filter is_GEORADIUS (calls st')
           = filter is_GEORADIUS (calls st) @ [GEORADIUS lng lat radius (MaxCandidates cfg)]"
    and "no_driver res \<and> unchanged st st'
         \<or> (\<exists>c \<in> set (geo_index st lng lat radius (MaxCandidates cfg)).
               claim_won lib vt c st st' res)"
proof -
  obtain g st1 where g: "redis_GeoRadius lng lat radius (MaxCandidates cfg) st = (g, st1)"
    by fastforce
  note ge = redis_GeoRadius_effect[OF g]
  have u1: "unchanged st st1" using ge by (simp add: unchanged_def)
  have all: "geo_index st' = geo_index st \<and> (outages st = [] \<longrightarrow> outages st' = []) \<and>
    filter is_GEORADIUS (calls st')
           = filter is_GEORADIUS (calls st) @ [GEORADIUS lng lat radius (MaxCandidates cfg)] \<and>
    (no_driver res \<and> unchanged st st'
         \<or> (\<exists>c \<in> set (geo_index st lng lat radius (MaxCandidates cfg)).
               claim_won lib vt c st st' res))"
  proof (cases g)
    case (Inl e)
    then have "res = Inl (SearchFailed e)" "st' = st1"
      using s g by (simp_all add: searchDriversInRadius_def)
    then show ?thesis using ge u1 by simp
  next
    case (Inr rs)
    note rs = ge(6)[OF Inr]
    show ?thesis
    proof (cases "rs = []")
      case True
      then have "res = Inl ErrDriverNotAvailable" "st' = st1"
        using s g Inr by (simp_all add: searchDriversInRadius_def)
      then show ?thesis using ge u1 by simp
    next
      case False
      then have l: "searchDriversInRadius_loop lib vt rs st1 = (res, st')"
        using s g Inr by (simp add: searchDriversInRadius_def)
      note o = loop_outcome[OF l]
      have q: "quiet st1 st'" using o by simp
      from o consider (lost) "res = Inl ErrDriverNotAvailable" "unchanged st1 st'"
        | (won) c where "c \<in> set rs" "claim_won lib vt c st1 st' res" by blast
      then have "no_driver res \<and> unchanged st st'
         \<or> (\<exists>c \<in> set rs. claim_won lib vt c st st' res)"
      proof cases
        case lost
        then show ?thesis using u1 unchanged_trans by auto
      next
        case won
        have "outages st = [] \<longrightarrow> outages st1 = []" using ge(5) by simp
        from claim_won_after[OF u1 this won(2)] show ?thesis using won(1) by blast
      qed
      then show ?thesis using q ge(1,4,5) unfolding rs by (simp add: quiet_def)
    qed
  qed
  show "geo_index st' = geo_index st" using all by simp
  show "outages st = [] \<longrightarrow> outages st' = []" using all by simp
  show "filter is_GEORADIUS (calls st')
           = filter is_GEORADIUS (calls st) @ [GEORADIUS lng lat radius (MaxCandidates cfg)]"
    using all by simp
  show "no_driver res \<and> unchanged st st'
         \<or> (\<exists>c \<in> set (geo_index st lng lat radius (MaxCandidates cfg)).
               claim_won lib vt c st st' res)" using all by simp
qed

lemma fnl_step:
  assumes "searchDriversInRadius lib cfg lat lng r vt st = (sres, st1)"
  shows "FindNearestDriver_loop lib cfg lat lng vt (r # rs) st =
     (if no_driver sres then FindNearestDriver_loop lib cfg lat lng vt rs st1 else (sres, st1))"
  using assms by (cases sres rule: no_driver.cases) simp_all

declare FindNearestDriver_loop.simps(2) [simp del]

lemma fnl_append_found:
  "FindNearestDriver_loop lib cfg lat lng vt rs st = (res, st')
     \<Longrightarrow> res \<noteq> Inl ErrDriverNotAvailable
     \<Longrightarrow> FindNearestDriver_loop lib cfg lat lng vt (rs @ rest) st = (res, st')"
proof (induction rs arbitrary: st)
  case Nil
  then show ?case by simp
next
  case (Cons r rs)
  obtain sres st1 where s: "searchDriversInRadius lib cfg lat lng r vt st = (sres, st1)"
    by fastforce
  show ?case
  proof (cases "no_driver sres")
    case True
    then have "FindNearestDriver_loop lib cfg lat lng vt rs st1 = (res, st')"
      using Cons.prems(1) by (simp add: fnl_step[OF s])
    from Cons.IH[OF this Cons.prems(2)] show ?thesis using True by (simp add: fnl_step[OF s])
  next
    case False
    then show ?thesis using Cons.prems(1) by (simp add: fnl_step[OF s])
  qed
qed

lemma fnl_append_lost:
  "FindNearestDriver_loop lib cfg lat lng vt rs st = (Inl ErrDriverNotAvailable, st1)
     \<Longrightarrow> FindNearestDriver_loop lib cfg lat lng vt (rs @ rest) st
           = FindNearestDriver_loop lib cfg lat lng vt rest st1"
proof (induction rs arbitrary: st)
  case Nil
  then show ?case by simp
next
  case (Cons r rs)
  obtain sres sa where s: "searchDriversInRadius lib cfg lat lng r vt st = (sres, sa)"
    by fastforce
  show ?case
  proof (cases "no_driver sres")
    case True
    then have "FindNearestDriver_loop lib cfg lat lng vt rs sa = (Inl ErrDriverNotAvailable, st1)"
      using Cons.prems by (simp add: fnl_step[OF s])
    from Cons.IH[OF this] show ?thesis using True by (simp add: fnl_step[OF s])
  next
    case False
    then show ?thesis using Cons.prems by (auto simp add: fnl_step[OF s])
  qed
qed

lemma fnl_outcome:
  "FindNearestDriver_loop lib cfg lat lng vt rs st = (res, st') \<Longrightarrow>
     geo_index st' = geo_index st \<and> (outages st = [] \<longrightarrow> outages st' = []) \<and>
     (\<exists>k. k \<le> length rs \<and> (rs \<noteq> [] \<longrightarrow> 0 < k) \<and>
          (res = Inl ErrDriverNotAvailable \<longrightarrow> k = length rs) \<and>
          filter is_GEORADIUS (calls st')
            = filter is_GEORADIUS (calls st) @ geo_queries lng lat (MaxCandidates cfg) (take k rs)) \<and>
     (res = Inl ErrDriverNotAvailable \<and> unchanged st st'
      \<or> (\<exists>r \<in> set rs. \<exists>c \<in> set (geo_index st lng lat r (MaxCandidates cfg)).
            claim_won lib vt c st st' res))"
proof (induction rs arbitrary: st)
  case Nil
  then show ?case by (simp add: unchanged_def geo_queries_def)
next
  case (Cons r rs)
  obtain sres st1 where s: "searchDriversInRadius lib cfg lat lng r vt st = (sres, st1)"
    by fastforce
  note so = search_outcome[OF s]
  show ?case
  proof (cases "no_driver sres")
    case True
    then have l: "FindNearestDriver_loop lib cfg lat lng vt rs st1 = (res, st')"
      using Cons.prems by (simp add: fnl_step[OF s])
    have u1: "unchanged st st1" using so(4) True claim_won_no_driver by blast
    from Cons.IH[OF l] obtain k where
      g: "geo_index st' = geo_index st1" and ou: "outages st1 = [] \<longrightarrow> outages st' = []"
      and k: "k \<le> length rs" "res = Inl ErrDriverNotAvailable \<longrightarrow> k = length rs"
        "filter is_GEORADIUS (calls st')
            = filter is_GEORADIUS (calls st1) @ geo_queries lng lat (MaxCandidates cfg) (take k rs)"
      and o: "res = Inl ErrDriverNotAvailable \<and> unchanged st1 st'
        \<or> (\<exists>r \<in> set rs. \<exists>c \<in> set (geo_index st1 lng lat r (MaxCandidates cfg)).
            claim_won lib vt c st1 st' res)"
      by blast
    have k': "Suc k \<le> length (r # rs)" "r # rs \<noteq> [] \<longrightarrow> 0 < Suc k"
      "res = Inl ErrDriverNotAvailable \<longrightarrow> Suc k = length (r # rs)"
      "filter is_GEORADIUS (calls st')
         = filter is_GEORADIUS (calls st) @ geo_queries lng lat (MaxCandidates cfg) (take (Suc k) (r # rs))"
      using k so(3) by (simp_all add: geo_queries_def)
    from o consider (lost) "res = Inl ErrDriverNotAvailable" "unchanged st1 st'"
      | (won) r' c where "r' \<in> set rs" "c \<in> set (geo_index st1 lng lat r' (MaxCandidates cfg))"
          "claim_won lib vt c st1 st' res" by blast
    then have o': "res = Inl ErrDriverNotAvailable \<and> unchanged st st'
        \<or> (\<exists>r' \<in> set (r # rs). \<exists>c \<in> set (geo_index st lng lat r' (MaxCandidates cfg)).
            claim_won lib vt c st st' res)"
    proof cases
      case lost
      then show ?thesis using u1 unchanged_trans by blast
    next
      case won
      have "claim_won lib vt c st st' res"
        using claim_won_after[OF u1 so(2) won(3)] .
      moreover have "c \<in> set (geo_index st lng lat r' (MaxCandidates cfg))"
        using won(2) so(1) by simp
      ultimately show ?thesis using won(1) by auto
    qed
    show ?thesis using g so(1) ou so(2) k' o' by metis
  next
    case False
    then have e: "res = sres" "st' = st1"
      using Cons.prems by (simp_all add: fnl_step[OF s])
    have w: "\<exists>c \<in> set (geo_index st lng lat r (MaxCandidates cfg)). claim_won lib vt c st st' res"
      using so(4) False e by blast
    then have ne: "res \<noteq> Inl ErrDriverNotAvailable" using claim_won_not_lost by blast
    have k': "Suc 0 \<le> length (r # rs)" "r # rs \<noteq> [] \<longrightarrow> 0 < Suc 0"
      "res = Inl ErrDriverNotAvailable \<longrightarrow> Suc 0 = length (r # rs)"
      "filter is_GEORADIUS (calls st')
         = filter is_GEORADIUS (calls st) @ geo_queries lng lat (MaxCandidates cfg) (take (Suc 0) (r # rs))"
      using so(3) e ne by (simp_all add: geo_queries_def)
    have "\<exists>r' \<in> set (r # rs). \<exists>c \<in> set (geo_index st lng lat r' (MaxCandidates cfg)).
            claim_won lib vt c st st' res" using w by simp
    then show ?thesis using so(1,2) e k' by metis
  qed
qed

lemma radii_strict:
  "0 < MaxRadiusKM cfg \<Longrightarrow> sorted_wrt (<) (searchRadii cfg)"
  by (simp add: searchRadii_def Let_def)

lemma radii_head: "searchRadii cfg = MaxRadiusKM cfg # tl (searchRadii cfg)"
  by (simp add: searchRadii_def Let_def)

lemma radii_above_max:
  "0 < MaxRadiusKM cfg \<Longrightarrow> maxRadius cfg < MaxRadiusKM cfg \<Longrightarrow> searchRadii cfg = [MaxRadiusKM cfg]"
  by (simp add: searchRadii_def Let_def)

lemma radii_within_max:
  "0 < MaxRadiusKM cfg \<Longrightarrow> MaxRadiusKM cfg \<le> MaxExpandedRadius cfg \<Longrightarrow>
   searchRadii cfg = MaxRadiusKM cfg # filter (\<lambda>r. r \<le> MaxExpandedRadius cfg)
       [2 * MaxRadiusKM cfg, 4 * MaxRadiusKM cfg, 10 * MaxRadiusKM cfg]"
  by (simp add: searchRadii_def Let_def maxRadius_def mult.commute)

lemma Validate_ignores_matching: "Validate (c\<lparr>Matching := m\<rparr>) = Validate c"
  by (simp add: Validate_def)

lemma CreateRide_rejects:
  "\<not> ShouldBindJSON req \<Longrightarrow> CreateRide lib rideID stored req st = (BadRequest, st)"
  by (simp add: CreateRide_def)

lemma CreateRide_bound:
  assumes b: "ShouldBindJSON req"
    and f: "FindNearestDriver lib handlerConfig (PickupLatitude req) (PickupLongitude req)
              (parseVehicleType (req_VehicleType req)) st = (found, st1)"
  shows "fst (CreateRide lib rideID stored req st) \<noteq> BadRequest \<and>
         filter is_GEORADIUS (calls (snd (CreateRide lib rideID stored req st)))
           = filter is_GEORADIUS (calls st1) \<and>
         (found = Inl ErrDriverNotAvailable \<longrightarrow> fst (CreateRide lib rideID stored req st) = Requested)"
proof -
  have f': "FindNearestDriver lib
           \<lparr>MaxRadiusKM = 5, MaxExpandedRadius = 50, MaxTimeout = 30, MaxCandidates = 50\<rparr>
           (PickupLatitude req) (PickupLongitude req)
           (if req_VehicleType req = ''economy'' then VehicleEconomy
            else if req_VehicleType req = ''premium'' then VehiclePremium
            else if req_VehicleType req = ''luxury'' then VehicleLuxury else VehicleEconomy) st
        = (found, st1)"
    using f by (simp add: handlerConfig_def parseVehicleType_def)
  show ?thesis
  proof (cases found)
    case (Inl e)
    then show ?thesis using b f'
      by (cases e) (simp_all add: CreateRide_def Let_def)
  next
    case (Inr d)
    obtain w st2 where w: "redis_Set (''driver:'' @ uuid_String lib (ID d) @ '':current_ride'')
        rideID 0 st1 = (w, st2)" by fastforce
    have "calls st2 = calls st1 @ [SETEX (''driver:'' @ uuid_String lib (ID d) @ '':current_ride'') rideID 0]"
      using redis_Set_effect(3)[OF w] .
    then have "filter is_GEORADIUS (calls st2) = filter is_GEORADIUS (calls st1)" by simp
    then show ?thesis using b f' Inr w
      by (simp add: CreateRide_def Let_def)
  qed
qed

subsection \<open>Runs on the example stores\<close>

lemmas store_ops = redis_Get_def redis_SRem_def redis_Set_def redis_GeoRadius_def issue_def
  Let_def searchDriversInRadius_loop.simps searchDriversInRadius_def
  FindNearestDriver_loop.simps FindNearestDriver_def

lemma run_plain:
  "fst (searchDriversInRadius_loop demoUuid VehicleEconomy [candN] plainIdAvailable) =
     Inr (claimedDriver demoUuid VehicleEconomy candN)"
  by (simp add: store_ops demoUuid_def candN_def plainIdAvailable_def emptyRedis_def
        claimedDriver_def markerKey_def)

lemma run_none:
  "FindNearestDriver demoUuid handlerConfig 12.5 77.5 VehicleEconomy noneAvailable =
     (Inl ErrDriverNotAvailable,
      noneAvailable\<lparr>calls :=
        [GEORADIUS 77.5 12.5 5 50,
         GET (markerKey candA), SREM (loc_Name candA),
         GET (markerKey candB), SREM (loc_Name candB),
         GEORADIUS 77.5 12.5 10 50,
         GET (markerKey candA), SREM (loc_Name candA),
         GET (markerKey candB), SREM (loc_Name candB),
         GEORADIUS 77.5 12.5 20 50,
         GET (markerKey candA), SREM (loc_Name candA),
         GET (markerKey candB), SREM (loc_Name candB),
         GEORADIUS 77.5 12.5 50 50,
         GET (markerKey candA), SREM (loc_Name candA),
         GET (markerKey candB), SREM (loc_Name candB)]\<rparr>)"
  by (simp add: store_ops demoUuid_def candA_def candB_def noneAvailable_def emptyRedis_def
        markerKey_def handlerConfig_def searchRadii_def maxRadius_def)



lemma run_found:
  "FindNearestDriver demoUuid handlerConfig 12.5 77.5 VehicleEconomy twoAvailable =
     (Inr (claimedDriver demoUuid VehicleEconomy candA),
      twoAvailable\<lparr>available := {loc_Name candB},
        strings := [markerKey candA \<mapsto> (''claiming'', 30)],
        calls := [GEORADIUS 77.5 12.5 5 50, GEORADIUS 77.5 12.5 10 50,
                  GEORADIUS 77.5 12.5 20 50, GET (markerKey candA), SREM (loc_Name candA),
                  SETEX (markerKey candA) ''claiming'' 30]\<rparr>)"
  by (simp add: store_ops demoUuid_def candA_def candB_def twoAvailable_def emptyRedis_def
        claimedDriver_def markerKey_def handlerConfig_def
        searchRadii_def maxRadius_def)

lemma run_above:
  "FindNearestDriver demoUuid (handlerConfig\<lparr>MaxRadiusKM := 60\<rparr>) 12.5 77.5 VehicleEconomy
       twoAvailable =
     (Inr (claimedDriver demoUuid VehicleEconomy candA),
      twoAvailable\<lparr>available := {loc_Name candB},
        strings := [markerKey candA \<mapsto> (''claiming'', 30)],
        calls := [GEORADIUS 77.5 12.5 60 50, GET (markerKey candA), SREM (loc_Name candA),
                  SETEX (markerKey candA) ''claiming'' 30]\<rparr>)"
  by (simp add: store_ops demoUuid_def candA_def candB_def twoAvailable_def emptyRedis_def
        claimedDriver_def markerKey_def handlerConfig_def
        searchRadii_def maxRadius_def)

lemma run_lat91:
  "CreateRide demoUuid ''ride-1'' True reqLat91 rejectingRedis =
     (Requested, emptyRedis\<lparr>calls := [GEORADIUS 77.5 91 5 50, GEORADIUS 77.5 91 10 50,
                                      GEORADIUS 77.5 91 20 50, GEORADIUS 77.5 91 50 50]\<rparr>)"
  by (simp add: CreateRide_def ShouldBindJSON_def store_ops demoUuid_def reqLat91_def
        rejectingRedis_def emptyRedis_def
        searchRadii_def maxRadius_def VehicleEconomy_def)

text \<open>
  A candidate whose identifier is shorter than eight bytes: the pass removes it from the
  available set, writes its marker and then panics on the slice of the identifier.
\<close>

lemma run_short:
  "searchDriversInRadius_loop demoUuid VehicleEconomy [candS] shortIdAvailable =
     (Inl PanicSliceBounds,
      shortIdAvailable\<lparr>available := {},
        strings := [markerKey candS \<mapsto> (''claiming'', 30)],
        calls := [GET (markerKey candS), SREM (loc_Name candS),
                  SETEX (markerKey candS) ''claiming'' 30]\<rparr>)"
  by (simp add: store_ops demoUuid_def candS_def shortIdAvailable_def emptyRedis_def
        markerKey_def)

subsection \<open>The claims on matching\<close>




text \<open>
  C2, as amended. For every configuration with a positive initial radius not above the
  maximum, the radius sequence is the initial radius followed by those of its 2-fold,
  4-fold and 10-fold that do not exceed the maximum, strictly ascending. The maximum is
  not added as a ceiling term: it is in the sequence only when it is one of the four
  multiples. Initial 5 and maximum 50 give [5, 10, 20, 50]; initial 5 and maximum 30 give
  [5, 10, 20]. The radii are queried in the order of the sequence, a search stopping after
  a prefix of it, and the first search that yields a driver ends
  \<^verbatim>\<open>FindNearestDriver\<close> with that driver and the store that search left.
\<close>

theorem C2_radius_sequence_filtered:
  assumes pos: "0 < MaxRadiusKM cfg" and le: "MaxRadiusKM cfg \<le> MaxExpandedRadius cfg"
  shows "searchRadii cfg
           = MaxRadiusKM cfg # filter (\<lambda>r. r \<le> MaxExpandedRadius cfg)
               [2 * MaxRadiusKM cfg, 4 * MaxRadiusKM cfg, 10 * MaxRadiusKM cfg] \<and>
     sorted_wrt (<) (searchRadii cfg) \<and>
     (MaxExpandedRadius cfg \<in> set (searchRadii cfg) \<longleftrightarrow>
        MaxExpandedRadius cfg \<in> {MaxRadiusKM cfg, 2 * MaxRadiusKM cfg, 4 * MaxRadiusKM cfg,
                                  10 * MaxRadiusKM cfg}) \<and>
     searchRadii (cfg\<lparr>MaxRadiusKM := 5, MaxExpandedRadius := 50\<rparr>) = [5, 10, 20, 50] \<and>
     searchRadii (cfg\<lparr>MaxRadiusKM := 5, MaxExpandedRadius := 30\<rparr>) = [5, 10, 20] \<and>
     (\<forall>res st'. FindNearestDriver lib cfg lat lng vt st = (res, st') \<longrightarrow>
        (\<exists>k. 0 < k \<and> k \<le> length (searchRadii cfg) \<and>
           (res = Inl ErrDriverNotAvailable \<longrightarrow> k = length (searchRadii cfg)) \<and>
           filter is_GEORADIUS (calls st')
             = filter is_GEORADIUS (calls st)
                 @ geo_queries lng lat (MaxCandidates cfg) (take k (searchRadii cfg)))) \<and>
     (\<forall>pre r post d st1 st2.
        searchRadii cfg = pre @ r # post \<and>
        FindNearestDriver_loop lib cfg lat lng vt pre st = (Inl ErrDriverNotAvailable, st1) \<and>
        searchDriversInRadius lib cfg lat lng r vt st1 = (Inr d, st2) \<longrightarrow>
        FindNearestDriver lib cfg lat lng vt st = (Inr d, st2))"
proof -
  have seq: "searchRadii cfg
           = MaxRadiusKM cfg # filter (\<lambda>r. r \<le> MaxExpandedRadius cfg)
               [2 * MaxRadiusKM cfg, 4 * MaxRadiusKM cfg, 10 * MaxRadiusKM cfg]"
    using radii_within_max[OF pos le] .
  have asc: "sorted_wrt (<) (searchRadii cfg)" using radii_strict[OF pos] .
  have ceil: "MaxExpandedRadius cfg \<in> set (searchRadii cfg) \<longleftrightarrow>
        MaxExpandedRadius cfg \<in> {MaxRadiusKM cfg, 2 * MaxRadiusKM cfg, 4 * MaxRadiusKM cfg,
                                  10 * MaxRadiusKM cfg}"
    unfolding seq by auto
  have ex1: "searchRadii (cfg\<lparr>MaxRadiusKM := 5, MaxExpandedRadius := 50\<rparr>) = [5, 10, 20, 50]"
    by (simp add: searchRadii_def Let_def maxRadius_def)
  have ex2: "searchRadii (cfg\<lparr>MaxRadiusKM := 5, MaxExpandedRadius := 30\<rparr>) = [5, 10, 20]"
    by (simp add: searchRadii_def Let_def maxRadius_def)
  have ne: "searchRadii cfg \<noteq> []" using radii_head[of cfg] by (metis list.distinct(1))
  have order: "\<forall>res st'. FindNearestDriver lib cfg lat lng vt st = (res, st') \<longrightarrow>
        (\<exists>k. 0 < k \<and> k \<le> length (searchRadii cfg) \<and>
           (res = Inl ErrDriverNotAvailable \<longrightarrow> k = length (searchRadii cfg)) \<and>
           filter is_GEORADIUS (calls st')
             = filter is_GEORADIUS (calls st)
                 @ geo_queries lng lat (MaxCandidates cfg) (take k (searchRadii cfg)))"
  proof (intro allI impI)
    fix res st'
    assume "FindNearestDriver lib cfg lat lng vt st = (res, st')"
    then have l: "FindNearestDriver_loop lib cfg lat lng vt (searchRadii cfg) st = (res, st')"
      by (simp add: FindNearestDriver_def)
    from fnl_outcome[OF l] ne
    show "\<exists>k. 0 < k \<and> k \<le> length (searchRadii cfg) \<and>
           (res = Inl ErrDriverNotAvailable \<longrightarrow> k = length (searchRadii cfg)) \<and>
           filter is_GEORADIUS (calls st')
             = filter is_GEORADIUS (calls st)
                 @ geo_queries lng lat (MaxCandidates cfg) (take k (searchRadii cfg))"
      by blast
  qed
  have first: "\<forall>pre r post d st1 st2.
        searchRadii cfg = pre @ r # post \<and>
        FindNearestDriver_loop lib cfg lat lng vt pre st = (Inl ErrDriverNotAvailable, st1) \<and>
        searchDriversInRadius lib cfg lat lng r vt st1 = (Inr d, st2) \<longrightarrow>
        FindNearestDriver lib cfg lat lng vt st = (Inr d, st2)"
  proof (intro allI impI)
    fix pre r post d st1 st2
    assume h: "searchRadii cfg = pre @ r # post \<and>
        FindNearestDriver_loop lib cfg lat lng vt pre st = (Inl ErrDriverNotAvailable, st1) \<and>
        searchDriversInRadius lib cfg lat lng r vt st1 = (Inr d, st2)"
    then have s: "searchDriversInRadius lib cfg lat lng r vt st1 = (Inr d, st2)" by simp
    have "FindNearestDriver_loop lib cfg lat lng vt (pre @ r # post) st
            = FindNearestDriver_loop lib cfg lat lng vt (r # post) st1"
      using h fnl_append_lost by blast
    also have "\<dots> = (Inr d, st2)" by (simp add: fnl_step[OF s])
    finally show "FindNearestDriver lib cfg lat lng vt st = (Inr d, st2)"
      using h by (simp add: FindNearestDriver_def)
  qed
  show ?thesis using seq asc ceil ex1 ex2 order first by blast
qed

text \<open>
  The handler's configuration: the driver is found at the third radius and the fourth is
  not queried.
\<close>

theorem C2_radius_sequence_witness:
  "0 < MaxRadiusKM handlerConfig \<and> MaxRadiusKM handlerConfig \<le> MaxExpandedRadius handlerConfig \<and>
   searchRadii handlerConfig = [5, 10, 20, 50] \<and>
   sorted_wrt (<) (searchRadii handlerConfig) \<and>
   fst (FindNearestDriver demoUuid handlerConfig 12.5 77.5 VehicleEconomy twoAvailable)
     = Inr (claimedDriver demoUuid VehicleEconomy candA) \<and>
   filter is_GEORADIUS
     (calls (snd (FindNearestDriver demoUuid handlerConfig 12.5 77.5 VehicleEconomy twoAvailable)))
     = [GEORADIUS 77.5 12.5 5 50, GEORADIUS 77.5 12.5 10 50, GEORADIUS 77.5 12.5 20 50]"
proof -
  have pos: "0 < MaxRadiusKM handlerConfig" by (simp add: handlerConfig_def)
  have le: "MaxRadiusKM handlerConfig \<le> MaxExpandedRadius handlerConfig"
    by (simp add: handlerConfig_def)
  have "sorted_wrt (<) (searchRadii handlerConfig)"
    using C2_radius_sequence_filtered[OF pos le] by blast
  moreover have "searchRadii handlerConfig = [5, 10, 20, 50]"
    by (simp add: searchRadii_def maxRadius_def handlerConfig_def)
  ultimately show ?thesis using pos le run_found by simp
qed

text \<open>
  C2 as stated fails where it says that the maximum is always included as a ceiling: with
  initial 5 and maximum 30 the 10-fold term 50 exceeds the maximum and is dropped, and 30
  is not in the sequence.
\<close>

theorem C2_no_ceiling_counterexample:
  "MaxRadiusKM (handlerConfig\<lparr>MaxExpandedRadius := 30\<rparr>)
     \<le> MaxExpandedRadius (handlerConfig\<lparr>MaxExpandedRadius := 30\<rparr>) \<and>
   MaxExpandedRadius (handlerConfig\<lparr>MaxExpandedRadius := 30\<rparr>)
     < 10 * MaxRadiusKM (handlerConfig\<lparr>MaxExpandedRadius := 30\<rparr>) \<and>
   searchRadii (handlerConfig\<lparr>MaxExpandedRadius := 30\<rparr>) = [5, 10, 20] \<and>
   MaxExpandedRadius (handlerConfig\<lparr>MaxExpandedRadius := 30\<rparr>)
     \<notin> set (searchRadii (handlerConfig\<lparr>MaxExpandedRadius := 30\<rparr>))"
  by (simp add: searchRadii_def maxRadius_def handlerConfig_def)

text \<open>
  C5, as amended. A request to \<^verbatim>\<open>CreateRide\<close> whose vehicle class is not one of economy,
  premium and luxury is rejected by the binding of the payload (status 400) before any
  store command, and the store is as before. Coordinates are not checked for range: every
  request that binds, whatever its coordinates, is not rejected, and its pickup
  coordinates are sent to the geo index in the query at 5 km.
\<close>

theorem C5_unknown_class_rejected_coordinates_unchecked:
  "(req_VehicleType req \<notin> {''economy'', ''premium'', ''luxury''} \<longrightarrow>
      CreateRide lib rideID stored req st = (BadRequest, st)) \<and>
   (ShouldBindJSON req \<longrightarrow>
      fst (CreateRide lib rideID stored req st) \<noteq> BadRequest \<and>
      (\<exists>later. filter is_GEORADIUS (calls (snd (CreateRide lib rideID stored req st)))
         = filter is_GEORADIUS (calls st)
             @ GEORADIUS (PickupLongitude req) (PickupLatitude req) 5 50 # later))"
proof (intro conjI impI)
  assume "req_VehicleType req \<notin> {''economy'', ''premium'', ''luxury''}"
  then have "\<not> ShouldBindJSON req" by (simp add: ShouldBindJSON_def)
  then show "CreateRide lib rideID stored req st = (BadRequest, st)"
    by (rule CreateRide_rejects)
next
  assume b: "ShouldBindJSON req"
  obtain found st1 where
    f: "FindNearestDriver lib handlerConfig (PickupLatitude req) (PickupLongitude req)
              (parseVehicleType (req_VehicleType req)) st = (found, st1)" by fastforce
  note cb = CreateRide_bound[OF b f]
  show "fst (CreateRide lib rideID stored req st) \<noteq> BadRequest" using cb by simp
  have l: "FindNearestDriver_loop lib handlerConfig (PickupLatitude req) (PickupLongitude req)
              (parseVehicleType (req_VehicleType req)) (searchRadii handlerConfig) st = (found, st1)"
    using f by (simp add: FindNearestDriver_def)
  have hd: "searchRadii handlerConfig = 5 # tl (searchRadii handlerConfig)"
    using radii_head[of handlerConfig] by (simp add: handlerConfig_def)
  from fnl_outcome[OF l] obtain k where
    k: "0 < k" "filter is_GEORADIUS (calls st1)
            = filter is_GEORADIUS (calls st)
               @ geo_queries (PickupLongitude req) (PickupLatitude req) (MaxCandidates handlerConfig)
                   (take k (searchRadii handlerConfig))"
    using hd by (metis list.distinct(1))
  obtain j where j: "k = Suc j" using k(1) by (cases k) auto
  have "take k (searchRadii handlerConfig) = 5 # take j (tl (searchRadii handlerConfig))"
    unfolding j by (subst hd) simp
  then have "filter is_GEORADIUS (calls st1)
            = filter is_GEORADIUS (calls st)
               @ GEORADIUS (PickupLongitude req) (PickupLatitude req) 5 50
                 # geo_queries (PickupLongitude req) (PickupLatitude req) 50
                     (take j (tl (searchRadii handlerConfig)))"
    using k(2) by (simp add: geo_queries_def handlerConfig_def)
  then show "\<exists>later. filter is_GEORADIUS (calls (snd (CreateRide lib rideID stored req st)))
         = filter is_GEORADIUS (calls st)
             @ GEORADIUS (PickupLongitude req) (PickupLatitude req) 5 50 # later"
    using cb by simp
qed

text \<open>An unknown class is rejected; latitude 91 binds and is not rejected.\<close>

theorem C5_binding_witness:
  "CreateRide demoUuid ''ride-1'' True reqUnknownClass twoAvailable = (BadRequest, twoAvailable) \<and>
   ShouldBindJSON reqLat91 \<and>
   fst (CreateRide demoUuid ''ride-1'' True reqLat91 rejectingRedis) \<noteq> BadRequest"
proof -
  have u: "req_VehicleType reqUnknownClass \<notin> {''economy'', ''premium'', ''luxury''}"
    by (simp add: reqUnknownClass_def)
  have b: "ShouldBindJSON reqLat91" by (simp add: ShouldBindJSON_def reqLat91_def)
  have 1: "CreateRide demoUuid ''ride-1'' True reqUnknownClass twoAvailable = (BadRequest, twoAvailable)"
    using C5_unknown_class_rejected_coordinates_unchecked
            [of reqUnknownClass demoUuid "''ride-1''" True twoAvailable] u by blast
  have 2: "fst (CreateRide demoUuid ''ride-1'' True reqLat91 rejectingRedis) \<noteq> BadRequest"
    using C5_unknown_class_rejected_coordinates_unchecked
            [of reqLat91 demoUuid "''ride-1''" True rejectingRedis] b by blast
  show ?thesis using 1 2 b by simp
qed

text \<open>
  C5 as stated fails for coordinates: a request with latitude 91 is answered with status
  \<^verbatim>\<open>requested\<close>, after four geo queries carrying that latitude (here the store fails
  each of them, as a server that refuses the coordinates does).
\<close>

theorem C5_latitude_91_counterexample:
  "PickupLatitude reqLat91 = 91 \<and>
   fst (CreateRide demoUuid ''ride-1'' True reqLat91 rejectingRedis) = Requested \<and>
   calls (snd (CreateRide demoUuid ''ride-1'' True reqLat91 rejectingRedis))
     = [GEORADIUS 77.5 91 5 50, GEORADIUS 77.5 91 10 50, GEORADIUS 77.5 91 20 50,
        GEORADIUS 77.5 91 50 50]"
  using run_lat91 by (simp add: reqLat91_def)

text \<open>
  C7, as amended. No configuration error exists in the matching service, and the startup
  validation does not depend on the matching section of the configuration. For a positive
  initial radius above the maximum (read as 50 when configured as 0) the radius sequence
  is the initial radius alone, \<^verbatim>\<open>FindNearestDriver\<close> sends exactly one geo query, at that
  radius, and returns what that one search yields, a search without a driver being
  reported as \<^verbatim>\<open>ErrDriverNotAvailable\<close>.
\<close>

theorem C7_initial_above_max_is_searched:
  assumes pos: "0 < MaxRadiusKM cfg" and above: "maxRadius cfg < MaxRadiusKM cfg"
  shows "Validate (c\<lparr>Matching := m\<rparr>) = Validate c \<and>
     searchRadii cfg = [MaxRadiusKM cfg] \<and>
     FindNearestDriver lib cfg lat lng vt st =
       (case searchDriversInRadius lib cfg lat lng (MaxRadiusKM cfg) vt st of
          (found, st1) \<Rightarrow> if no_driver found then (Inl ErrDriverNotAvailable, st1)
                          else (found, st1)) \<and>
     filter is_GEORADIUS (calls (snd (FindNearestDriver lib cfg lat lng vt st)))
       = filter is_GEORADIUS (calls st)
           @ [GEORADIUS lng lat (MaxRadiusKM cfg) (MaxCandidates cfg)]"
proof -
  have r: "searchRadii cfg = [MaxRadiusKM cfg]" using radii_above_max[OF pos above] .
  obtain found st1 where
    s: "searchDriversInRadius lib cfg lat lng (MaxRadiusKM cfg) vt st = (found, st1)"
    by fastforce
  have f: "FindNearestDriver lib cfg lat lng vt st =
       (if no_driver found then (Inl ErrDriverNotAvailable, st1) else (found, st1))"
    by (simp add: FindNearestDriver_def r fnl_step[OF s])
  have c: "filter is_GEORADIUS (calls st1)
       = filter is_GEORADIUS (calls st)
           @ [GEORADIUS lng lat (MaxRadiusKM cfg) (MaxCandidates cfg)]"
    using search_outcome(3)[OF s] .
  show ?thesis using r f c s by (simp add: Validate_ignores_matching)
qed

text \<open>Initial radius 60 with maximum 50: one query at 60 km.\<close>

theorem C7_initial_above_max_witness:
  "0 < MaxRadiusKM (handlerConfig\<lparr>MaxRadiusKM := 60\<rparr>) \<and>
   maxRadius (handlerConfig\<lparr>MaxRadiusKM := 60\<rparr>) < MaxRadiusKM (handlerConfig\<lparr>MaxRadiusKM := 60\<rparr>) \<and>
   searchRadii (handlerConfig\<lparr>MaxRadiusKM := 60\<rparr>) = [60] \<and>
   filter is_GEORADIUS (calls (snd (FindNearestDriver demoUuid (handlerConfig\<lparr>MaxRadiusKM := 60\<rparr>)
      12.5 77.5 VehicleEconomy noneAvailable))) = [GEORADIUS 77.5 12.5 60 50]"
proof -
  have pos: "0 < MaxRadiusKM (handlerConfig\<lparr>MaxRadiusKM := 60\<rparr>)" by (simp add: handlerConfig_def)
  have above: "maxRadius (handlerConfig\<lparr>MaxRadiusKM := 60\<rparr>)
                 < MaxRadiusKM (handlerConfig\<lparr>MaxRadiusKM := 60\<rparr>)"
    by (simp add: handlerConfig_def maxRadius_def)
  note t = C7_initial_above_max_is_searched[OF pos above, where lib = demoUuid and lat = "12.5"
        and lng = "77.5" and vt = VehicleEconomy and st = noneAvailable]
  have r: "searchRadii (handlerConfig\<lparr>MaxRadiusKM := 60\<rparr>) = [60]"
    using t[THEN conjunct2, THEN conjunct1] by (simp add: handlerConfig_def)
  have q: "filter is_GEORADIUS (calls (snd (FindNearestDriver demoUuid
      (handlerConfig\<lparr>MaxRadiusKM := 60\<rparr>) 12.5 77.5 VehicleEconomy noneAvailable)))
      = [GEORADIUS 77.5 12.5 60 50]"
    using t[THEN conjunct2, THEN conjunct2, THEN conjunct2]
    by (simp add: handlerConfig_def noneAvailable_def emptyRedis_def)
  show ?thesis using pos above r q by simp
qed

text \<open>
  C7 as stated fails: with initial radius 60 above the maximum 50 the search is performed
  and returns the claimed driver.
\<close>

theorem C7_no_config_error_counterexample:
  "MaxExpandedRadius (handlerConfig\<lparr>MaxRadiusKM := 60\<rparr>)
     < MaxRadiusKM (handlerConfig\<lparr>MaxRadiusKM := 60\<rparr>) \<and>
   fst (FindNearestDriver demoUuid (handlerConfig\<lparr>MaxRadiusKM := 60\<rparr>) 12.5 77.5
          VehicleEconomy twoAvailable)
     = Inr (claimedDriver demoUuid VehicleEconomy candA) \<and>
   calls (snd (FindNearestDriver demoUuid (handlerConfig\<lparr>MaxRadiusKM := 60\<rparr>) 12.5 77.5
          VehicleEconomy twoAvailable))
     = [GEORADIUS 77.5 12.5 60 50, GET (markerKey candA), SREM (loc_Name candA),
        SETEX (markerKey candA) ''claiming'' 30]"
  using run_above by (simp add: handlerConfig_def)

subsection \<open>The store after a search without supply\<close>

text \<open>
  \<^verbatim>\<open>FindNearestDriver\<close> never changes the geo index, and it returns
  \<^verbatim>\<open>ErrDriverNotAvailable\<close> exactly when no identifier was removed from the available
  set. In that case the string keys are unchanged as well, and each radius of the sequence
  was queried once, in order, with no second round. In every other case exactly one
  identifier was removed, by a removal that found it present, the only string key that can
  differ is the 30-second marker of that identifier, and removal and marker write are the
  last two commands sent: candidates that were not won leave no trace.
\<close>

lemma no_supply_leaves_store:
  assumes run: "FindNearestDriver lib cfg lat lng vt st = (res, st')"
  shows "geo_index st' = geo_index st \<and>
     ((res = Inl ErrDriverNotAvailable) = (available st' = available st)) \<and>
     (res = Inl ErrDriverNotAvailable \<longrightarrow>
        strings st' = strings st \<and>
        filter is_GEORADIUS (calls st')
          = filter is_GEORADIUS (calls st)
              @ geo_queries lng lat (MaxCandidates cfg) (searchRadii cfg)) \<and>
     (res \<noteq> Inl ErrDriverNotAvailable \<longrightarrow>
        (\<exists>c. loc_Name c \<in> available st \<and> available st' = available st - {loc_Name c} \<and>
             (strings st' = strings st
              \<or> strings st' = (strings st)(markerKey c \<mapsto> (''claiming'', 30))) \<and>
             (\<exists>before. calls st'
                = before @ [SREM (loc_Name c), SETEX (markerKey c) ''claiming'' 30])))"
proof -
  have l: "FindNearestDriver_loop lib cfg lat lng vt (searchRadii cfg) st = (res, st')"
    using run by (simp add: FindNearestDriver_def)
  from fnl_outcome[OF l] obtain k where
    g: "geo_index st' = geo_index st"
    and k: "res = Inl ErrDriverNotAvailable \<longrightarrow> k = length (searchRadii cfg)"
      "filter is_GEORADIUS (calls st')
        = filter is_GEORADIUS (calls st)
            @ geo_queries lng lat (MaxCandidates cfg) (take k (searchRadii cfg))"
    and o: "res = Inl ErrDriverNotAvailable \<and> unchanged st st'
      \<or> (\<exists>r \<in> set (searchRadii cfg). \<exists>c \<in> set (geo_index st lng lat r (MaxCandidates cfg)).
            claim_won lib vt c st st' res)"
    by blast
  from o consider (lost) "res = Inl ErrDriverNotAvailable" "unchanged st st'"
    | (won) c where "claim_won lib vt c st st' res" by blast
  then show ?thesis
  proof cases
    case lost
    then show ?thesis using g k by (simp add: unchanged_def)
  next
    case won
    have ne: "res \<noteq> Inl ErrDriverNotAvailable" using won claim_won_not_lost by blast
    have ch: "available st' \<noteq> available st" using won claim_won_removed by blast
    have "\<exists>c. loc_Name c \<in> available st \<and> available st' = available st - {loc_Name c} \<and>
             (strings st' = strings st
              \<or> strings st' = (strings st)(markerKey c \<mapsto> (''claiming'', 30))) \<and>
             (\<exists>before. calls st'
                = before @ [SREM (loc_Name c), SETEX (markerKey c) ''claiming'' 30])"
      using won unfolding claim_won_def by blast
    then show ?thesis using g ne ch by simp
  qed
qed

text \<open>
  A search in which nobody is available, and one in which candidate A is claimed.
\<close>

lemma no_supply_example:
  "fst (FindNearestDriver demoUuid handlerConfig 12.5 77.5 VehicleEconomy noneAvailable)
     = Inl ErrDriverNotAvailable \<and>
   available (snd (FindNearestDriver demoUuid handlerConfig 12.5 77.5 VehicleEconomy noneAvailable))
     = available noneAvailable \<and>
   strings (snd (FindNearestDriver demoUuid handlerConfig 12.5 77.5 VehicleEconomy noneAvailable))
     = strings noneAvailable \<and>
   filter is_GEORADIUS
     (calls (snd (FindNearestDriver demoUuid handlerConfig 12.5 77.5 VehicleEconomy noneAvailable)))
     = [GEORADIUS 77.5 12.5 5 50, GEORADIUS 77.5 12.5 10 50, GEORADIUS 77.5 12.5 20 50,
        GEORADIUS 77.5 12.5 50 50] \<and>
   fst (FindNearestDriver demoUuid handlerConfig 12.5 77.5 VehicleEconomy twoAvailable)
     \<noteq> Inl ErrDriverNotAvailable \<and>
   available (snd (FindNearestDriver demoUuid handlerConfig 12.5 77.5 VehicleEconomy twoAvailable))
     \<noteq> available twoAvailable"
proof -
  obtain st' where lost:
    "FindNearestDriver demoUuid handlerConfig 12.5 77.5 VehicleEconomy noneAvailable
       = (Inl ErrDriverNotAvailable, st')"
    using run_none by simp
  have radii: "searchRadii handlerConfig = [5, 10, 20, 50]"
    by (simp add: searchRadii_def maxRadius_def handlerConfig_def)
  have mc: "MaxCandidates handlerConfig = 50" by (simp add: handlerConfig_def)
  have a: "available st' = available noneAvailable \<and> strings st' = strings noneAvailable \<and>
     filter is_GEORADIUS (calls st')
       = [GEORADIUS 77.5 12.5 5 50, GEORADIUS 77.5 12.5 10 50, GEORADIUS 77.5 12.5 20 50,
          GEORADIUS 77.5 12.5 50 50]"
    using no_supply_leaves_store[OF lost]
    by (simp add: radii mc geo_queries_def noneAvailable_def emptyRedis_def)
  obtain d st'' where won:
    "FindNearestDriver demoUuid handlerConfig 12.5 77.5 VehicleEconomy twoAvailable
       = (Inr d, st'')"
    using run_found by simp
  have b: "available st'' \<noteq> available twoAvailable"
    using no_supply_leaves_store[OF won] by simp
  show ?thesis using lost won a b by simp
qed

text \<open>
  C8, evaluated where the code departs from it. For the outcome
  \<^verbatim>\<open>ErrDriverNotAvailable\<close> the claim holds (lemma \<open>no_supply_leaves_store\<close>). It fails on
  another failure path: the candidate \<^verbatim>\<open>d1\<close>, whose identifier has two bytes, is
  available. \<^verbatim>\<open>FindNearestDriver\<close> removes it from the available set, writes its 30-second
  marker and then panics on \<^verbatim>\<open>driverID[:8]\<close>, so no driver is returned and the panic
  leaves \<^verbatim>\<open>CreateRide\<close> without an assignment, while the removal and the marker stay in
  the store.
\<close>

theorem C8_short_id_claimed_then_panic:
  "loc_Name candS \<in> available shortIdAvailable \<and>
   FindNearestDriver demoUuid handlerConfig 12.5 77.5 VehicleEconomy shortIdAvailable =
     (Inl PanicSliceBounds,
      shortIdAvailable\<lparr>available := {},
        strings := [markerKey candS \<mapsto> (''claiming'', 30)],
        calls := [GEORADIUS 77.5 12.5 5 50, GET (markerKey candS), SREM (loc_Name candS),
                  SETEX (markerKey candS) ''claiming'' 30]\<rparr>) \<and>
   fst (CreateRide demoUuid ''ride-1'' True
          \<lparr>RiderID = ''rider-1'', PickupLatitude = 12.5, PickupLongitude = 77.5,
           DropoffLatitude = 12.75, DropoffLongitude = 77.75, req_VehicleType = ''economy''\<rparr>
          shortIdAvailable) = Panicked \<and>
   available (snd (CreateRide demoUuid ''ride-1'' True
          \<lparr>RiderID = ''rider-1'', PickupLatitude = 12.5, PickupLongitude = 77.5,
           DropoffLatitude = 12.75, DropoffLongitude = 77.75, req_VehicleType = ''economy''\<rparr>
          shortIdAvailable)) = {}"
  by (simp add: CreateRide_def ShouldBindJSON_def store_ops demoUuid_def candS_def
        shortIdAvailable_def emptyRedis_def markerKey_def handlerConfig_def searchRadii_def
        maxRadius_def VehicleEconomy_def)

end
